theory Spec2Isabelle
  imports Complex_Main "HOL-Library.AList" "HOL-Library.Sublist"
begin

section \<open>Typed errors (src/errors.ts, config-manager.ts)\<close>

text \<open>
  The error classes of \<^verbatim>\<open>errors.ts\<close> that the modelled functions can raise, one
  constructor per class, each carrying the message it is constructed with.
  \<^verbatim>\<open>EntryNotFoundError\<close> is declared in \<^verbatim>\<open>config-manager.ts\<close>.
  \<^verbatim>\<open>InvariantError\<close> stands for what \<^verbatim>\<open>invariant(...)\<close> throws, \<^verbatim>\<open>UpstreamError\<close> for
  a rejection of a processor call made by the webhook manager, and \<^verbatim>\<open>TypeError\<close> for the
  language's own error on a member access of \<^verbatim>\<open>undefined\<close> or \<^verbatim>\<open>null\<close>.
\<close>

datatype error =
    JsonSchemaError
  | RestrictedKeyNotSupportedError string
  | InvalidSecretKeyError string
  | UnexpectedSecretKeyError string
  | InvalidPublishableKeyError string
  | UnexpectedPublishableKeyError string
  | EntryNotFoundError string
  | InvariantError string
  | UpstreamError string
  | TypeError string

text \<open>The \<^verbatim>\<open>fieldName\<close> property that the \<^verbatim>\<open>FieldError\<close> subclasses declare.\<close>

fun fieldName :: "error \<Rightarrow> string option" where
  "fieldName (RestrictedKeyNotSupportedError m) = Some ''secretKey''"
| "fieldName (InvalidSecretKeyError m) = Some ''secretKey''"
| "fieldName (UnexpectedSecretKeyError m) = Some ''secretKey''"
| "fieldName (InvalidPublishableKeyError m) = Some ''publishableKey''"
| "fieldName (UnexpectedPublishableKeyError m) = Some ''publishableKey''"
| "fieldName JsonSchemaError = None"
| "fieldName (EntryNotFoundError m) = None"
| "fieldName (InvariantError m) = None"
| "fieldName (UpstreamError m) = None"
| "fieldName (TypeError m) = None"

section \<open>Transaction session mapper (stripe-api.ts)\<close>

subsection \<open>Result translation\<close>

text \<open>
  \<^verbatim>\<open>TransactionFlowStrategyEnum\<close> has the members \<^verbatim>\<open>Authorization\<close> and \<^verbatim>\<open>Charge\<close>;
  \<^verbatim>\<open>OtherStrategy\<close> is a run-time value outside the enum, for which the source computes
  the prefix \<^verbatim>\<open>null\<close> and lets \<^verbatim>\<open>invariant\<close> throw.
\<close>

datatype TransactionFlowStrategyEnum = Authorization | Charge | OtherStrategy string

record PaymentIntent =
  status :: string

definition strategyPrefix :: "TransactionFlowStrategyEnum \<Rightarrow> string option" where
  "strategyPrefix transactionFlowStrategy =
     (if transactionFlowStrategy = Authorization then Some ''AUTHORIZATION''
      else if transactionFlowStrategy = Charge then Some ''CHARGE''
      else None)"

fun strategyName :: "TransactionFlowStrategyEnum \<Rightarrow> string" where
  "strategyName Authorization = ''AUTHORIZATION''"
| "strategyName Charge = ''CHARGE''"
| "strategyName (OtherStrategy s) = s"

text \<open>
  The result is \<^verbatim>\<open>Inl\<close> when \<^verbatim>\<open>invariant\<close> throws, \<^verbatim>\<open>Inr (Some r)\<close> when a \<^verbatim>\<open>case\<close> of
  the \<^verbatim>\<open>switch\<close> returns \<^verbatim>\<open>r\<close>, and \<^verbatim>\<open>Inr None\<close> when control leaves the \<^verbatim>\<open>switch\<close>
  without a \<^verbatim>\<open>return\<close>, so that the function returns \<^verbatim>\<open>undefined\<close>.
\<close>

definition stripePaymentIntentToTransactionResult ::
  "TransactionFlowStrategyEnum \<Rightarrow> PaymentIntent \<Rightarrow> error + string option" where
  "stripePaymentIntentToTransactionResult transactionFlowStrategy stripePaymentIntent =
     (let stripeResult = status stripePaymentIntent in
      case strategyPrefix transactionFlowStrategy of
        None \<Rightarrow> Inl (InvariantError
                 (''Unsupported transactionFlowStrategy: '' @ strategyName transactionFlowStrategy))
      | Some pre \<Rightarrow>
          if stripeResult = ''requires_payment_method'' \<or> stripeResult = ''processing''
            then Inr (Some (pre @ ''_REQUESTED''))
          else if stripeResult = ''requires_action'' \<or> stripeResult = ''requires_capture''
                  \<or> stripeResult = ''requires_confirmation''
            then Inr (Some (pre @ ''_ACTION_REQUIRED''))
          else if stripeResult = ''canceled'' then Inr (Some (pre @ ''_FAILURE''))
          else if stripeResult = ''succeeded'' then Inr (Some (pre @ ''_SUCCESS''))
          else Inr None)"

subsection \<open>Request construction\<close>

text \<open>
  The session event's \<^verbatim>\<open>data\<close> is an opaque JSON payload, or absent; the source casts it
  to the processor's parameter object without a check and spreads it into the request.
  JSON values are modelled
  as a datatype; an object is the list of its own entries, read with \<^const>\<open>map_of\<close> and
  written with \<^const>\<open>AList.update\<close>, which overwrites a key in place or appends it, as
  a property assignment does.
\<close>

datatype json =
    JNull
  | JBool bool
  | JNum rat
  | JStr string
  | JArr "json list"
  | JObj "(string \<times> json) list"

type_synonym jobject = "(string \<times> json) list"

text \<open>Decimal rendering of an array index, the property key of an element.\<close>

fun decimal :: "nat \<Rightarrow> string" where
  "decimal n =
     (if n < 10 then [''0123456789'' ! n]
      else decimal (n div 10) @ [''0123456789'' ! (n mod 10)])"

text \<open>
  The own enumerable properties that an object spread \<^verbatim>\<open>...v\<close> copies: the entries of
  an object, the indexed elements of an array, the indexed characters of a string, and
  nothing for \<^verbatim>\<open>undefined\<close> (\<^verbatim>\<open>None\<close>), \<^verbatim>\<open>null\<close>, numbers and booleans.
\<close>

fun ownEntries :: "json option \<Rightarrow> jobject" where
  "ownEntries (Some (JObj kvs)) = kvs"
| "ownEntries (Some (JArr xs)) = zip (map decimal [0..<length xs]) xs"
| "ownEntries (Some (JStr s)) = zip (map decimal [0..<length s]) (map (\<lambda>c. JStr [c]) s)"
| "ownEntries (Some JNull) = []"
| "ownEntries (Some (JBool b)) = []"
| "ownEntries (Some (JNum n)) = []"
| "ownEntries None = []"

text \<open>
  An object literal \<^verbatim>\<open>{ ...base, k1: v1, k2: v2 }\<close>: the properties are assigned from left
  to right on top of the spread base.
\<close>

definition objectLiteral :: "jobject \<Rightarrow> jobject \<Rightarrow> jobject" where
  "objectLiteral base assignments = fold (\<lambda>(k, v). AList.update k v) assignments base"

datatype typename = Checkout | Order

record Money =
  amount :: rat
  currency :: string

record SourceObject =
  typename :: typename
  sourceId :: string
  totalGross :: Money
  channelId :: string

text \<open>
  The event. \<^verbatim>\<open>data\<close> is \<^verbatim>\<open>None\<close> when the event carries no payload (\<^verbatim>\<open>undefined\<close>), and
  any JSON value otherwise, \<^verbatim>\<open>null\<close> included.
\<close>

record TransactionSessionEvent =
  data :: "json option"
  sourceObject :: SourceObject
  actionType :: TransactionFlowStrategyEnum
  transactionId :: string

text \<open>
  \<^verbatim>\<open>getStripeAmountFromSaleorMoney\<close> (module \<^verbatim>\<open>./currencies\<close>) converts the platform's
  decimal amount to the processor's minor units; it is a parameter of the model.
\<close>

type_synonym amountConversion = "Money \<Rightarrow> int"

text \<open>
  The member access \<^verbatim>\<open>data.metadata\<close>. On \<^verbatim>\<open>undefined\<close> and on \<^verbatim>\<open>null\<close> it throws a
  \<^verbatim>\<open>TypeError\<close>; on an object it is the value of the property, \<^verbatim>\<open>undefined\<close> when the
  object has none; a string, a number, a boolean and an array have no such property.
\<close>

fun dataMetadata :: "json option \<Rightarrow> error + json option" where
  "dataMetadata None =
     Inl (TypeError ''Cannot read properties of undefined (reading 'metadata')'')"
| "dataMetadata (Some JNull) =
     Inl (TypeError ''Cannot read properties of null (reading 'metadata')'')"
| "dataMetadata (Some (JObj kvs)) = Inr (map_of kvs ''metadata'')"
| "dataMetadata (Some (JArr xs)) = Inr None"
| "dataMetadata (Some (JStr s)) = Inr None"
| "dataMetadata (Some (JNum n)) = Inr None"
| "dataMetadata (Some (JBool b)) = Inr None"

text \<open>
  The metadata object literal, on top of the spread of the caller's metadata
  \<^verbatim>\<open>data.metadata\<close>.
\<close>

definition eventMetadata :: "TransactionSessionEvent \<Rightarrow> json option \<Rightarrow> jobject" where
  "eventMetadata event callerMetadata =
     objectLiteral (ownEntries callerMetadata)
       ([(''transactionId'', JStr (transactionId event)),
         (''channelId'', JStr (channelId (sourceObject event)))]
        @ (if typename (sourceObject event) = Checkout
           then [(''checkoutId'', JStr (sourceId (sourceObject event)))] else [])
        @ (if typename (sourceObject event) = Order
           then [(''orderId'', JStr (sourceId (sourceObject event)))] else []))"

definition captureMethod :: "TransactionSessionEvent \<Rightarrow> string" where
  "captureMethod event = (if actionType event = Charge then ''automatic'' else ''manual'')"

text \<open>
  The two request builders. The properties of the literal are evaluated in order; the
  only one that can throw is \<^verbatim>\<open>metadata\<close>, through \<^verbatim>\<open>data.metadata\<close>, and then no request is
  returned.
\<close>

definition transactionSessionInitializeEventToStripeCreate ::
  "amountConversion \<Rightarrow> TransactionSessionEvent \<Rightarrow> error + jobject" where
  "transactionSessionInitializeEventToStripeCreate getStripeAmountFromSaleorMoney event =
     (case dataMetadata (data event) of
        Inl e \<Rightarrow> Inl e
      | Inr callerMetadata \<Rightarrow>
          Inr (objectLiteral (ownEntries (data event))
            [(''amount'', JNum (of_int (getStripeAmountFromSaleorMoney
                 \<lparr>amount = amount (totalGross (sourceObject event)),
                  currency = currency (totalGross (sourceObject event))\<rparr>))),
             (''currency'', JStr (currency (totalGross (sourceObject event)))),
             (''automatic_payment_methods'', JObj [(''enabled'', JBool True)]),
             (''capture_method'', JStr (captureMethod event)),
             (''metadata'', JObj (eventMetadata event callerMetadata))]))"

definition transactionSessionProcessEventToStripeUpdate ::
  "amountConversion \<Rightarrow> TransactionSessionEvent \<Rightarrow> error + jobject" where
  "transactionSessionProcessEventToStripeUpdate getStripeAmountFromSaleorMoney event =
     (case dataMetadata (data event) of
        Inl e \<Rightarrow> Inl e
      | Inr callerMetadata \<Rightarrow>
          Inr (objectLiteral (ownEntries (data event))
            [(''amount'', JNum (of_int (getStripeAmountFromSaleorMoney
                 \<lparr>amount = amount (totalGross (sourceObject event)),
                  currency = currency (totalGross (sourceObject event))\<rparr>))),
             (''currency'', JStr (currency (totalGross (sourceObject event)))),
             (''capture_method'', JStr (captureMethod event)),
             (''metadata'', JObj (eventMetadata event callerMetadata))]))"

subsection \<open>Credential validation\<close>

text \<open>
  \<^verbatim>\<open>validateStripeKeys\<close> makes two live calls through the processor's client and looks
  at how each promise settles: resolved, rejected with a \<^verbatim>\<open>StripeError\<close>, or rejected with
  anything else. The two calls are parameters of the model, each a function of the key
  the client is built with.
\<close>

datatype settled = Resolved | RejectedStripeError | RejectedOther

record StripeApi =
  paymentIntentsList :: "string \<Rightarrow> settled"
  tokensCreate :: "string \<Rightarrow> settled"

definition validateStripeKeys :: "StripeApi \<Rightarrow> string \<Rightarrow> string \<Rightarrow> error + unit" where
  "validateStripeKeys stripe secretKey publishableKey =
     (if prefix ''rk_'' secretKey
        then Inl (RestrictedKeyNotSupportedError ''Restricted keys are not supported'')
      else
        (case paymentIntentsList stripe secretKey of
           RejectedStripeError \<Rightarrow> Inl (InvalidSecretKeyError ''Provided secret key is invalid'')
         | RejectedOther \<Rightarrow>
             Inl (InvalidSecretKeyError ''There was an error while checking secret key'')
         | Resolved \<Rightarrow>
             (case tokensCreate stripe publishableKey of
                RejectedStripeError \<Rightarrow>
                  Inl (InvalidSecretKeyError ''Provided publishable key is invalid'')
              | RejectedOther \<Rightarrow>
                  Inl (InvalidSecretKeyError
                         ''There was an error while checking publishable key'')
              | Resolved \<Rightarrow> Inr ())))"

section \<open>Configuration store (payment-app-configuration.ts)\<close>

subsection \<open>Data model\<close>

text \<open>
  A configuration entry, as the code reads it. \<^verbatim>\<open>configurationId\<close> is always present;
  every other field is optional, because \<^verbatim>\<open>setConfigEntry\<close> casts an update payload to an
  entry when it appends it. \<^verbatim>\<open>None\<close> is a property that reads as \<^verbatim>\<open>undefined\<close>: the code
  that reads entries (\<^verbatim>\<open>find\<close>, \<^verbatim>\<open>===\<close>, the arguments of the webhook deletion) does not
  tell an absent property from one whose value is \<^verbatim>\<open>undefined\<close>.
\<close>

record ConfigEntry =
  configurationId :: string
  configurationName :: "string option"
  secretKey :: "string option"
  publishableKey :: "string option"
  webhookId :: "string option"
  webhookSecret :: "string option"

text \<open>
  The payload of \<^verbatim>\<open>setConfigEntry\<close> (\<^verbatim>\<open>AdyenEntryConfigUpdate\<close>). An object spread copies
  every own property, also one whose value is \<^verbatim>\<open>undefined\<close>, so a payload property is in
  one of three states: not there, there with the value \<^verbatim>\<open>undefined\<close>, there with a string.
\<close>

datatype 'a property = Missing | Undef | Val 'a

record ConfigEntryUpdate =
  updConfigurationId :: string
  updConfigurationName :: "string property"
  updSecretKey :: "string property"
  updPublishableKey :: "string property"
  updWebhookId :: "string property"
  updWebhookSecret :: "string property"

type_synonym ChannelMapping = "string \<rightharpoonup> string"

record AppConfig =
  configurations :: "ConfigEntry list"
  channelToConfigurationId :: ChannelMapping

text \<open>
  \<^verbatim>\<open>Partial<AppConfig>\<close>: the argument of \<^verbatim>\<open>setConfig\<close> and the shape of the persisted
  record, in which either field may be absent.
\<close>

record PartialAppConfig =
  configurationsField :: "ConfigEntry list option"
  channelToConfigurationIdField :: "ChannelMapping option"

text \<open>
  The form payload of an Add (\<^verbatim>\<open>PaymentAppFormConfigEntry\<close>).
\<close>

record PaymentAppFormConfigEntry =
  formConfigurationName :: string
  formSecretKey :: string
  formPublishableKey :: string

subsection \<open>External collaborators and the observable state\<close>

text \<open>
  The collaborators whose code is outside the modelled files are parameters: the
  structural check of the schema, the processor's client, the two processor calls of the
  webhook manager, the id generator (the value of its \<open>n\<close>-th call) and the display
  transform of an entry.
\<close>

record Collaborators =
  schemaAccepts :: "PartialAppConfig \<Rightarrow> bool"
  stripeApi :: StripeApi
  webhookEndpointsCreate :: "string \<Rightarrow> string \<Rightarrow> string \<Rightarrow> error + (string \<times> string)"
  webhookEndpointsDel :: "string option \<Rightarrow> string option \<Rightarrow> error option"
  uuidv7 :: "nat \<Rightarrow> string"
  obfuscateConfigEntry :: "ConfigEntry \<Rightarrow> ConfigEntry"
  saleorApiUrl :: string

text \<open>
  The state that the operations read and change: the persisted record of the tenant and,
  for each collaborator with an effect, the list of the calls made to it so far.
\<close>

record World =
  privateMetadata :: PartialAppConfig
  setConfigCalls :: "(PartialAppConfig \<times> bool) list"
  createStripeWebhookCalls :: "(string \<times> string \<times> string) list"
  deleteStripeWebhookCalls :: "(string option \<times> string option) list"
  uuidv7Calls :: nat

subsection \<open>The metadata configurator and the schema\<close>

text \<open>
  Modelled from the spec: \<^verbatim>\<open>PrivateMetadataAppConfigurator\<close> (module
  \<^verbatim>\<open>../app-configuration/app-configuration\<close>) is not among the source files. Section 4.1:
  \<^verbatim>\<open>setConfig(partial, replace=false)\<close> merges \<^verbatim>\<open>partial\<close> into the stored aggregate
  field by field; with \<^verbatim>\<open>replace\<close> true the written value replaces the stored one.
  Collections are never merged element-wise.
\<close>

definition mergePartial :: "PartialAppConfig \<Rightarrow> PartialAppConfig \<Rightarrow> PartialAppConfig" where
  "mergePartial existingConfig newConfig =
     \<lparr>configurationsField =
        (case configurationsField newConfig of
           Some c \<Rightarrow> Some c | None \<Rightarrow> configurationsField existingConfig),
      channelToConfigurationIdField =
        (case channelToConfigurationIdField newConfig of
           Some m \<Rightarrow> Some m | None \<Rightarrow> channelToConfigurationIdField existingConfig)\<rparr>"

definition PrivateMetadataAppConfigurator_setConfig ::
  "PartialAppConfig \<Rightarrow> bool \<Rightarrow> World \<Rightarrow> World" where
  "PrivateMetadataAppConfigurator_setConfig newConfig replace w =
     w\<lparr>privateMetadata :=
         (if replace then newConfig else mergePartial (privateMetadata w) newConfig),
       setConfigCalls := setConfigCalls w @ [(newConfig, replace)]\<rparr>"

definition PrivateMetadataAppConfigurator_getConfig :: "World \<Rightarrow> PartialAppConfig" where
  "PrivateMetadataAppConfigurator_getConfig w = privateMetadata w"

text \<open>
  Modelled from the spec: \<^verbatim>\<open>adyenAppConfigSchema\<close> (module \<^verbatim>\<open>./app-config\<close>) is not among
  the source files. Section 4.1: the stored aggregate is validated against the schema, a
  structurally invalid record is a \<^verbatim>\<open>JsonSchemaError\<close>, and an absent record or field
  yields the defaults, the empty configuration list and the empty mapping.
\<close>

definition adyenAppConfigSchema_parse ::
  "Collaborators \<Rightarrow> PartialAppConfig \<Rightarrow> error + AppConfig" where
  "adyenAppConfigSchema_parse env config =
     (if schemaAccepts env config
      then Inr \<lparr>configurations =
                  (case configurationsField config of Some c \<Rightarrow> c | None \<Rightarrow> []),
                channelToConfigurationId =
                  (case channelToConfigurationIdField config of
                     Some m \<Rightarrow> m | None \<Rightarrow> Map.empty)\<rparr>
      else Inl JsonSchemaError)"

subsection \<open>AppConfigurator\<close>

definition AppConfigurator_getConfig :: "Collaborators \<Rightarrow> World \<Rightarrow> error + AppConfig" where
  "AppConfigurator_getConfig env w =
     adyenAppConfigSchema_parse env (PrivateMetadataAppConfigurator_getConfig w)"

definition AppConfigurator_setConfig ::
  "PartialAppConfig \<Rightarrow> bool \<Rightarrow> World \<Rightarrow> (error + unit) \<times> World" where
  "AppConfigurator_setConfig newConfig replace w =
     (Inr (), PrivateMetadataAppConfigurator_setConfig newConfig replace w)"

text \<open>\<^verbatim>\<open>Array.prototype.findIndex\<close>: the index of the first match, or \<open>-1\<close>.\<close>

fun findIndex :: "('a \<Rightarrow> bool) \<Rightarrow> 'a list \<Rightarrow> int" where
  "findIndex P [] = - 1"
| "findIndex P (x # xs) =
     (if P x then 0
      else (let i = findIndex P xs in if i = - 1 then - 1 else i + 1))"

text \<open>
  What reading a payload property gives: its string, or \<^verbatim>\<open>undefined\<close>.
\<close>

fun readProperty :: "'a property \<Rightarrow> 'a option" where
  "readProperty Missing = None"
| "readProperty Undef = None"
| "readProperty (Val v) = Some v"

text \<open>The cast \<^verbatim>\<open>newConfiguration as AdyenEntryConfig\<close>: the same object, read as an entry.\<close>

definition asEntry :: "ConfigEntryUpdate \<Rightarrow> ConfigEntry" where
  "asEntry newConfiguration =
     \<lparr>configurationId = updConfigurationId newConfiguration,
      configurationName = readProperty (updConfigurationName newConfiguration),
      secretKey = readProperty (updSecretKey newConfiguration),
      publishableKey = readProperty (updPublishableKey newConfiguration),
      webhookId = readProperty (updWebhookId newConfiguration),
      webhookSecret = readProperty (updWebhookSecret newConfiguration)\<rparr>"

text \<open>
  The shallow merge \<^verbatim>\<open>{ ...existingEntry, ...newConfiguration }\<close>, one property at a time:
  a property that the payload has overwrites the existing one, also when its value is
  \<^verbatim>\<open>undefined\<close>; a property that the payload lacks keeps the existing value.
\<close>

fun spreadOver :: "'a option \<Rightarrow> 'a property \<Rightarrow> 'a option" where
  "spreadOver existing Missing = existing"
| "spreadOver existing Undef = None"
| "spreadOver existing (Val v) = Some v"

definition mergeEntry :: "ConfigEntry \<Rightarrow> ConfigEntryUpdate \<Rightarrow> ConfigEntry" where
  "mergeEntry existingEntry newConfiguration =
     \<lparr>configurationId = updConfigurationId newConfiguration,
      configurationName =
        spreadOver (configurationName existingEntry) (updConfigurationName newConfiguration),
      secretKey = spreadOver (secretKey existingEntry) (updSecretKey newConfiguration),
      publishableKey =
        spreadOver (publishableKey existingEntry) (updPublishableKey newConfiguration),
      webhookId = spreadOver (webhookId existingEntry) (updWebhookId newConfiguration),
      webhookSecret =
        spreadOver (webhookSecret existingEntry) (updWebhookSecret newConfiguration)\<rparr>"

definition AppConfigurator_setConfigEntry ::
  "Collaborators \<Rightarrow> ConfigEntryUpdate \<Rightarrow> World \<Rightarrow> (error + unit) \<times> World" where
  "AppConfigurator_setConfigEntry env newConfiguration w =
     (case AppConfigurator_getConfig env w of
        Inl e \<Rightarrow> (Inl e, w)
      | Inr config \<Rightarrow>
          (let existingEntryIndex =
                 findIndex
                   (\<lambda>entry. configurationId entry = updConfigurationId newConfiguration)
                   (configurations config)
           in if existingEntryIndex \<noteq> - 1 then
                (let existingEntry = configurations config ! nat existingEntryIndex;
                     mergedEntry = mergeEntry existingEntry newConfiguration;
                     newConfigurations =
                       (configurations config)[nat existingEntryIndex := mergedEntry]
                 in AppConfigurator_setConfig
                      \<lparr>configurationsField = Some newConfigurations,
                       channelToConfigurationIdField = None\<rparr> False w)
              else
                AppConfigurator_setConfig
                  \<lparr>configurationsField =
                     Some (configurations config @ [asEntry newConfiguration]),
                   channelToConfigurationIdField = None\<rparr> False w))"

text \<open>
  \<^verbatim>\<open>Object.fromEntries(Object.entries(m).filter(([, v]) => P v))\<close>: the mapping restricted
  to the keys whose value satisfies \<open>P\<close>.
\<close>

definition filterEntries :: "('v \<Rightarrow> bool) \<Rightarrow> ('k \<rightharpoonup> 'v) \<Rightarrow> ('k \<rightharpoonup> 'v)" where
  "filterEntries P m = (\<lambda>k. case m k of None \<Rightarrow> None | Some v \<Rightarrow> if P v then Some v else None)"

definition AppConfigurator_deleteConfigEntry ::
  "Collaborators \<Rightarrow> string \<Rightarrow> World \<Rightarrow> (error + unit) \<times> World" where
  "AppConfigurator_deleteConfigEntry env cid w =
     (case AppConfigurator_getConfig env w of
        Inl e \<Rightarrow> (Inl e, w)
      | Inr oldConfig \<Rightarrow>
          (let newConfigurations =
                 filter (\<lambda>entry. configurationId entry \<noteq> cid) (configurations oldConfig);
               newMappings =
                 filterEntries (\<lambda>configId. configId \<noteq> cid) (channelToConfigurationId oldConfig)
           in AppConfigurator_setConfig
                \<lparr>configurationsField = Some newConfigurations,
                 channelToConfigurationIdField = Some newMappings\<rparr> True w))"

text \<open>
  The channel id argument of \<^verbatim>\<open>getConfigurationForChannel\<close> has the type
  \<^verbatim>\<open>string | undefined | null\<close>.
\<close>

datatype 'a nullish = Undefined | Null | Defined 'a

text \<open>
  \<^verbatim>\<open>!channelId\<close> and \<^verbatim>\<open>!configurationId\<close> hold for an absent value and for the empty
  string. The result \<^verbatim>\<open>None\<close> is the returned \<^verbatim>\<open>null\<close>. The function has no
  \<^verbatim>\<open>throw\<close>; its model has no error result. The mapping is read by own keys; for a
  name that the object only inherits, the source reads a value that is no string, finds
  no entry with it and returns \<^verbatim>\<open>null\<close>, as the model does for an unmapped channel.
\<close>

definition getConfigurationForChannel :: "AppConfig \<Rightarrow> string nullish \<Rightarrow> ConfigEntry option" where
  "getConfigurationForChannel appConfig channel =
     (case channel of
        Undefined \<Rightarrow> None
      | Null \<Rightarrow> None
      | Defined ch \<Rightarrow>
          if ch = [] then None
          else
            (case channelToConfigurationId appConfig ch of
               None \<Rightarrow> None
             | Some cid \<Rightarrow>
                 if cid = [] then None
                 else find (\<lambda>config. configurationId config = cid) (configurations appConfig)))"

section \<open>Config manager (config-manager.ts)\<close>

text \<open>
  Modelled from the spec: \<^verbatim>\<open>createStripeWebhook\<close> and \<^verbatim>\<open>deleteStripeWebhook\<close> (module
  \<^verbatim>\<open>./webhook-manager\<close>) are not among the source files. Section 6: the webhook
  provisioner is \<^verbatim>\<open>create(secretKey, callbackUrl)\<close>, returning the webhook's id and
  signing secret, and \<^verbatim>\<open>delete(webhookId, secretKey)\<close>; either may fail. Each call is
  recorded in the state and leaves the persisted record as it is.
\<close>

definition createStripeWebhook ::
  "Collaborators \<Rightarrow> string \<Rightarrow> string \<Rightarrow> World \<Rightarrow> (error + (string \<times> string)) \<times> World" where
  "createStripeWebhook env appUrl sk w =
     (webhookEndpointsCreate env appUrl sk (saleorApiUrl env),
      w\<lparr>createStripeWebhookCalls :=
          createStripeWebhookCalls w @ [(appUrl, sk, saleorApiUrl env)]\<rparr>)"

definition deleteStripeWebhook ::
  "Collaborators \<Rightarrow> string option \<Rightarrow> string option \<Rightarrow> World \<Rightarrow> (error + unit) \<times> World" where
  "deleteStripeWebhook env wid sk w =
     ((case webhookEndpointsDel env wid sk of Some e \<Rightarrow> Inl e | None \<Rightarrow> Inr ()),
      w\<lparr>deleteStripeWebhookCalls := deleteStripeWebhookCalls w @ [(wid, sk)]\<rparr>)"

text \<open>A call of the id generator: the next value, and one more call counted.\<close>

definition nextUuid :: "Collaborators \<Rightarrow> World \<Rightarrow> string \<times> World" where
  "nextUuid env w = (uuidv7 env (uuidv7Calls w), w\<lparr>uuidv7Calls := Suc (uuidv7Calls w)\<rparr>)"

definition getAllConfigEntriesDecrypted ::
  "Collaborators \<Rightarrow> World \<Rightarrow> error + ConfigEntry list" where
  "getAllConfigEntriesDecrypted env w =
     (case AppConfigurator_getConfig env w of
        Inl e \<Rightarrow> Inl e
      | Inr config \<Rightarrow> Inr (configurations config))"

definition addConfigEntry ::
  "Collaborators \<Rightarrow> PaymentAppFormConfigEntry \<Rightarrow> string \<Rightarrow> World
     \<Rightarrow> (error + ConfigEntry) \<times> World" where
  "addConfigEntry env newConfigEntry appUrl w =
     (case validateStripeKeys (stripeApi env)
             (formSecretKey newConfigEntry) (formPublishableKey newConfigEntry) of
        Inl e \<Rightarrow> (Inl e, w)
      | Inr u \<Rightarrow>
          (case createStripeWebhook env appUrl (formSecretKey newConfigEntry) w of
             (Inl e, w1) \<Rightarrow> (Inl e, w1)
           | (Inr (whSecret, whId), w1) \<Rightarrow>
               (case nextUuid env w1 of
                  (uuid, w2) \<Rightarrow>
                    (let config =
                           \<lparr>updConfigurationId = uuid,
                            updConfigurationName = Val (formConfigurationName newConfigEntry),
                            updSecretKey = Val (formSecretKey newConfigEntry),
                            updPublishableKey = Val (formPublishableKey newConfigEntry),
                            updWebhookId = Val whId,
                            updWebhookSecret = Val whSecret\<rparr>
                     in case AppConfigurator_setConfigEntry env config w2 of
                          (Inl e, w3) \<Rightarrow> (Inl e, w3)
                        | (Inr u', w3) \<Rightarrow>
                            (Inr (obfuscateConfigEntry env (asEntry config)), w3)))))"

definition deleteConfigEntry ::
  "Collaborators \<Rightarrow> string \<Rightarrow> World \<Rightarrow> (error + unit) \<times> World" where
  "deleteConfigEntry env cid w =
     (case getAllConfigEntriesDecrypted env w of
        Inl e \<Rightarrow> (Inl e, w)
      | Inr entries \<Rightarrow>
          (case find (\<lambda>entry. configurationId entry = cid) entries of
             None \<Rightarrow>
               (Inl (EntryNotFoundError (''Entry with id '' @ cid @ '' was not found'')), w)
           | Some existingEntry \<Rightarrow>
               (let otherEntries = filter (\<lambda>entry. configurationId entry \<noteq> cid) entries;
                    isWebhookUsed =
                      list_ex (\<lambda>entry. webhookId entry = webhookId existingEntry) otherEntries;
                    w1 = (if \<not> isWebhookUsed then
                            (case deleteStripeWebhook env
                                    (webhookId existingEntry) (secretKey existingEntry) w of
                               (Inl e, w') \<Rightarrow> w'
                             | (Inr u, w') \<Rightarrow> w')
                          else w)
                in AppConfigurator_deleteConfigEntry env cid w1)))"

section \<open>Fixtures\<close>

text \<open>
  Concrete inputs on which the theorems below are exercised. The stored aggregate of
  \<^verbatim>\<open>filledFakeMatadataConfig\<close> is the one of the test helper (one entry \<^verbatim>\<open>mock-id\<close>, mapped
  from channel \<^verbatim>\<open>1\<close>), with placeholder values for the keys of the test environment.
\<close>

definition filledFakeMatadataConfig :: AppConfig where
  "filledFakeMatadataConfig =
     \<lparr>configurations =
        [\<lparr>configurationId = ''mock-id'',
          configurationName = Some ''test'',
          secretKey = Some ''sk_test_mock'',
          publishableKey = Some ''pk_test_mock'',
          webhookId = None,
          webhookSecret = Some ''whsec_mock''\<rparr>],
      channelToConfigurationId = [''1'' \<mapsto> ''mock-id'']\<rparr>"

text \<open>The 222.99 of the handler test, in the minor units of a two-decimal currency.\<close>

definition mockStripeAmount :: amountConversion where
  "mockStripeAmount money = 22299"

definition mockCheckoutEvent :: TransactionSessionEvent where
  "mockCheckoutEvent =
     \<lparr>data = Some (JObj
               [(''automatic_payment_methods'', JObj [(''enabled'', JBool False)]),
                (''description'', JStr ''order 7''),
                (''metadata'', JObj [(''orderId'', JStr ''caller-order''),
                                     (''note'', JStr ''gift'')])]),
      sourceObject =
        \<lparr>typename = Checkout, sourceId = ''checkout-1'',
         totalGross = \<lparr>amount = 22299 / 100, currency = ''usd''\<rparr>,
         channelId = ''channel-1''\<rparr>,
      actionType = Charge,
      transactionId = ''txn-1''\<rparr>"

definition mockOrderEvent :: TransactionSessionEvent where
  "mockOrderEvent =
     \<lparr>data = Some (JObj [(''description'', JStr ''order 8'')]),
      sourceObject =
        \<lparr>typename = Order, sourceId = ''order-1'',
         totalGross = \<lparr>amount = 22299 / 100, currency = ''usd''\<rparr>,
         channelId = ''channel-2''\<rparr>,
      actionType = Authorization,
      transactionId = ''txn-2''\<rparr>"

text \<open>
  A processor that accepts one secret key and one publishable key, rejects every other
  key as invalid, and cannot be reached with the key \<^verbatim>\<open>pk_unreachable\<close>.
\<close>

definition mockStripeApi :: StripeApi where
  "mockStripeApi =
     \<lparr>paymentIntentsList =
        (\<lambda>key. if key = ''sk_test_valid'' \<or> key = ''sk_test_nohook'' then Resolved
               else RejectedStripeError),
      tokensCreate =
        (\<lambda>key. if key = ''pk_test_valid'' then Resolved
               else if key = ''pk_unreachable'' then RejectedOther
               else RejectedStripeError)\<rparr>"

text \<open>
  Collaborators that accept every stored record, provision a webhook for the key
  \<^verbatim>\<open>sk_test_valid\<close> only, and fail every webhook deletion.
\<close>

definition mockCollaborators :: Collaborators where
  "mockCollaborators =
     \<lparr>schemaAccepts = (\<lambda>config. True),
      stripeApi = mockStripeApi,
      webhookEndpointsCreate =
        (\<lambda>appUrl sk url. if sk = ''sk_test_valid'' then Inr (''whsec_new'', ''we_new'')
                          else Inl (UpstreamError ''webhook endpoint was not created'')),
      webhookEndpointsDel = (\<lambda>wid sk. Some (UpstreamError ''webhook endpoint was not deleted'')),
      uuidv7 = (\<lambda>n. ''uuid-'' @ decimal n),
      obfuscateConfigEntry = (\<lambda>entry. entry\<lparr>secretKey := None, webhookSecret := None\<rparr>),
      saleorApiUrl = ''https://example.saleor.cloud/graphql/''\<rparr>"

text \<open>
  Three entries: \<^verbatim>\<open>cfg-a\<close> and \<^verbatim>\<open>cfg-b\<close> share the webhook \<^verbatim>\<open>we_1\<close>, \<^verbatim>\<open>cfg-c\<close> alone has
  \<^verbatim>\<open>we_2\<close>. Channels 1 and 3 map to \<^verbatim>\<open>cfg-a\<close>, channel 2 to \<^verbatim>\<open>cfg-c\<close>.
\<close>

text \<open>
  Two update payloads: one renames \<^verbatim>\<open>cfg-b\<close>, supplies a new publishable key and supplies
  the webhook secret as \<^verbatim>\<open>undefined\<close>; the other has an id that no entry has.
\<close>

definition renameB :: ConfigEntryUpdate where
  "renameB = \<lparr>updConfigurationId = ''cfg-b'', updConfigurationName = Val ''renamed'',
              updSecretKey = Missing, updPublishableKey = Val ''pk_test_9'',
              updWebhookId = Missing, updWebhookSecret = Undef\<rparr>"

definition payloadD :: ConfigEntryUpdate where
  "payloadD = \<lparr>updConfigurationId = ''cfg-d'', updConfigurationName = Val ''D'',
               updSecretKey = Val ''sk_test_4'', updPublishableKey = Missing,
               updWebhookId = Undef, updWebhookSecret = Missing\<rparr>"

text \<open>An event without a payload, and one whose payload is \<^verbatim>\<open>null\<close>.\<close>

definition mockEventNoData :: TransactionSessionEvent where
  "mockEventNoData = mockOrderEvent\<lparr>data := None\<rparr>"

definition mockEventNullData :: TransactionSessionEvent where
  "mockEventNullData = mockOrderEvent\<lparr>data := Some JNull\<rparr>"

definition entryA :: ConfigEntry where
  "entryA = \<lparr>configurationId = ''cfg-a'', configurationName = Some ''A'',
             secretKey = Some ''sk_test_1'', publishableKey = Some ''pk_test_1'',
             webhookId = Some ''we_1'', webhookSecret = Some ''whsec_1''\<rparr>"

definition entryB :: ConfigEntry where
  "entryB = \<lparr>configurationId = ''cfg-b'', configurationName = Some ''B'',
             secretKey = Some ''sk_test_1'', publishableKey = Some ''pk_test_1'',
             webhookId = Some ''we_1'', webhookSecret = Some ''whsec_1''\<rparr>"

definition entryC :: ConfigEntry where
  "entryC = \<lparr>configurationId = ''cfg-c'', configurationName = Some ''C'',
             secretKey = Some ''sk_test_2'', publishableKey = Some ''pk_test_2'',
             webhookId = Some ''we_2'', webhookSecret = Some ''whsec_2''\<rparr>"

definition sampleMapping :: ChannelMapping where
  "sampleMapping = [''channel-1'' \<mapsto> ''cfg-a'', ''channel-2'' \<mapsto> ''cfg-c'',
                    ''channel-3'' \<mapsto> ''cfg-a'']"

definition sampleConfig :: AppConfig where
  "sampleConfig =
     \<lparr>configurations = [entryA, entryB, entryC], channelToConfigurationId = sampleMapping\<rparr>"

definition sampleWorld :: World where
  "sampleWorld =
     \<lparr>privateMetadata =
        \<lparr>configurationsField = Some [entryA, entryB, entryC],
         channelToConfigurationIdField = Some sampleMapping\<rparr>,
      setConfigCalls = [],
      createStripeWebhookCalls = [],
      deleteStripeWebhookCalls = [],
      uuidv7Calls = 0\<rparr>"

section \<open>Result translation: the status table\<close>

text \<open>
  Claim C1. For both flow strategies, the result translation maps each handled processor
  status to the strategy's prefix followed by the suffix of the table:
  \<^verbatim>\<open>requires_payment_method\<close> and \<^verbatim>\<open>processing\<close> to \<^verbatim>\<open>_REQUESTED\<close>; \<^verbatim>\<open>requires_action\<close>,
  \<^verbatim>\<open>requires_capture\<close> and \<^verbatim>\<open>requires_confirmation\<close> to \<^verbatim>\<open>_ACTION_REQUIRED\<close>; \<^verbatim>\<open>canceled\<close>
  to \<^verbatim>\<open>_FAILURE\<close>; \<^verbatim>\<open>succeeded\<close> to \<^verbatim>\<open>_SUCCESS\<close>.
\<close>

theorem result_translation_table:
  "stripePaymentIntentToTransactionResult Authorization \<lparr>status = ''requires_payment_method''\<rparr>
     = Inr (Some ''AUTHORIZATION_REQUESTED'')
   \<and> stripePaymentIntentToTransactionResult Authorization \<lparr>status = ''processing''\<rparr>
     = Inr (Some ''AUTHORIZATION_REQUESTED'')
   \<and> stripePaymentIntentToTransactionResult Authorization \<lparr>status = ''requires_action''\<rparr>
     = Inr (Some ''AUTHORIZATION_ACTION_REQUIRED'')
   \<and> stripePaymentIntentToTransactionResult Authorization \<lparr>status = ''requires_capture''\<rparr>
     = Inr (Some ''AUTHORIZATION_ACTION_REQUIRED'')
   \<and> stripePaymentIntentToTransactionResult Authorization \<lparr>status = ''requires_confirmation''\<rparr>
     = Inr (Some ''AUTHORIZATION_ACTION_REQUIRED'')
   \<and> stripePaymentIntentToTransactionResult Authorization \<lparr>status = ''canceled''\<rparr>
     = Inr (Some ''AUTHORIZATION_FAILURE'')
   \<and> stripePaymentIntentToTransactionResult Authorization \<lparr>status = ''succeeded''\<rparr>
     = Inr (Some ''AUTHORIZATION_SUCCESS'')
   \<and> stripePaymentIntentToTransactionResult Charge \<lparr>status = ''requires_payment_method''\<rparr>
     = Inr (Some ''CHARGE_REQUESTED'')
   \<and> stripePaymentIntentToTransactionResult Charge \<lparr>status = ''processing''\<rparr>
     = Inr (Some ''CHARGE_REQUESTED'')
   \<and> stripePaymentIntentToTransactionResult Charge \<lparr>status = ''requires_action''\<rparr>
     = Inr (Some ''CHARGE_ACTION_REQUIRED'')
   \<and> stripePaymentIntentToTransactionResult Charge \<lparr>status = ''requires_capture''\<rparr>
     = Inr (Some ''CHARGE_ACTION_REQUIRED'')
   \<and> stripePaymentIntentToTransactionResult Charge \<lparr>status = ''requires_confirmation''\<rparr>
     = Inr (Some ''CHARGE_ACTION_REQUIRED'')
   \<and> stripePaymentIntentToTransactionResult Charge \<lparr>status = ''canceled''\<rparr>
     = Inr (Some ''CHARGE_FAILURE'')
   \<and> stripePaymentIntentToTransactionResult Charge \<lparr>status = ''succeeded''\<rparr>
     = Inr (Some ''CHARGE_SUCCESS'')"
  by (simp add: stripePaymentIntentToTransactionResult_def strategyPrefix_def)

text \<open>
  Claim C2, as amended. A status outside the seven handled values is not signalled: for
  both flow strategies the \<^verbatim>\<open>switch\<close> has no matching \<^verbatim>\<open>case\<close> and no \<^verbatim>\<open>default\<close>, and the
  function returns \<^verbatim>\<open>undefined\<close> without raising anything.
\<close>

theorem unhandled_status_returns_undefined:
  assumes "status intent \<notin> {''requires_payment_method'', ''processing'', ''requires_action'',
             ''requires_capture'', ''requires_confirmation'', ''canceled'', ''succeeded''}"
    and "strategy = Authorization \<or> strategy = Charge"
  shows "stripePaymentIntentToTransactionResult strategy intent = Inr None"
  using assms
  by (auto simp add: stripePaymentIntentToTransactionResult_def strategyPrefix_def)

theorem unhandled_status_returns_undefined_witness:
  "status \<lparr>status = ''requires_review''\<rparr> \<notin> {''requires_payment_method'', ''processing'',
      ''requires_action'', ''requires_capture'', ''requires_confirmation'', ''canceled'',
      ''succeeded''}
   \<and> (Authorization = Authorization \<or> Authorization = Charge)
   \<and> stripePaymentIntentToTransactionResult Authorization \<lparr>status = ''requires_review''\<rparr>
       = Inr None"
proof -
  have h1: "status \<lparr>status = ''requires_review''\<rparr> \<notin> {''requires_payment_method'',
      ''processing'', ''requires_action'', ''requires_capture'', ''requires_confirmation'',
      ''canceled'', ''succeeded''}"
    by simp
  have h2: "Authorization = Authorization \<or> Authorization = Charge" by simp
  from unhandled_status_returns_undefined [OF h1 h2] h1 h2 show ?thesis by blast
qed

text \<open>
  The claim as stated, that such a status is signalled rather than answered with
  \<^verbatim>\<open>undefined\<close>, fails at the status \<^verbatim>\<open>requires_review\<close>.
\<close>

theorem unhandled_status_counterexample:
  "stripePaymentIntentToTransactionResult Charge \<lparr>status = ''requires_review''\<rparr> = Inr None"
  by (simp add: stripePaymentIntentToTransactionResult_def strategyPrefix_def)

section \<open>Credential validation: the error of a failed publishable-key check\<close>

text \<open>
  Claim C8. The claim asks for an error that names the publishable key as the failing
  field and tells an invalid key from a failed validation call. The code raises
  \<^verbatim>\<open>InvalidSecretKeyError\<close>, whose field is \<^verbatim>\<open>secretKey\<close>, in both cases; only the message
  differs. This theorem evaluates the code on a valid secret key with a rejected
  publishable key and with an unreachable processor.
\<close>

theorem publishable_key_failure_reported_as_secret_key:
  "validateStripeKeys mockStripeApi ''sk_test_valid'' ''pk_test_wrong''
     = Inl (InvalidSecretKeyError ''Provided publishable key is invalid'')
   \<and> fieldName (InvalidSecretKeyError ''Provided publishable key is invalid'')
       = Some ''secretKey''
   \<and> validateStripeKeys mockStripeApi ''sk_test_valid'' ''pk_unreachable''
     = Inl (InvalidSecretKeyError ''There was an error while checking publishable key'')
   \<and> validateStripeKeys mockStripeApi ''sk_test_valid'' ''pk_test_valid'' = Inr ()"
  by (simp add: validateStripeKeys_def mockStripeApi_def)

section \<open>Request construction: what the create request holds\<close>

text \<open>
  Reading a key of an object literal: the last assignment to the key, or else the value
  of the spread base.
\<close>

lemma map_of_objectLiteral:
  "map_of (objectLiteral base assignments) k =
     (case map_of (rev assignments) k of Some v \<Rightarrow> Some v | None \<Rightarrow> map_of base k)"
  unfolding objectLiteral_def
proof (induction assignments arbitrary: base)
  case Nil
  show ?case by simp
next
  case (Cons a as)
  obtain k' v' where a: "a = (k', v')" by (cases a)
  show ?case
    by (auto simp add: a Cons.IH update_conv' map_add_def split: option.splits)
qed

lemma eventMetadata_reserved:
  "map_of (eventMetadata event md) ''transactionId'' = Some (JStr (transactionId event))"
  "map_of (eventMetadata event md) ''channelId'' = Some (JStr (channelId (sourceObject event)))"
  by (simp_all add: eventMetadata_def map_of_objectLiteral)

lemma eventMetadata_source_key:
  "map_of (eventMetadata event md) ''checkoutId'' =
     (if typename (sourceObject event) = Checkout then Some (JStr (sourceId (sourceObject event)))
      else map_of (ownEntries md) ''checkoutId'')"
  "map_of (eventMetadata event md) ''orderId'' =
     (if typename (sourceObject event) = Order then Some (JStr (sourceId (sourceObject event)))
      else map_of (ownEntries md) ''orderId'')"
  by (cases "typename (sourceObject event)"; simp add: eventMetadata_def map_of_objectLiteral)+

lemma eventMetadata_preserved:
  "k \<notin> {''transactionId'', ''channelId'', ''checkoutId'', ''orderId''} \<Longrightarrow>
   map_of (eventMetadata event md) k = map_of (ownEntries md) k"
  by (simp add: eventMetadata_def map_of_objectLiteral)

text \<open>
  With a payload that is present and not \<^verbatim>\<open>null\<close>, \<^verbatim>\<open>data.metadata\<close> does not throw and the
  create function returns the object literal.
\<close>

lemma dataMetadata_present:
  "d \<noteq> JNull \<Longrightarrow> \<exists>md. dataMetadata (Some d) = Inr md"
  by (cases d) simp_all

lemma create_request_run:
  assumes "data event = Some d" and "dataMetadata (Some d) = Inr md"
  shows "transactionSessionInitializeEventToStripeCreate conv event
     = Inr (objectLiteral (ownEntries (Some d))
         [(''amount'', JNum (of_int (conv
              \<lparr>amount = amount (totalGross (sourceObject event)),
               currency = currency (totalGross (sourceObject event))\<rparr>))),
          (''currency'', JStr (currency (totalGross (sourceObject event)))),
          (''automatic_payment_methods'', JObj [(''enabled'', JBool True)]),
          (''capture_method'', JStr (captureMethod event)),
          (''metadata'', JObj (eventMetadata event md))])"
  using assms by (simp add: transactionSessionInitializeEventToStripeCreate_def)

text \<open>
  Without a payload, or with the payload \<^verbatim>\<open>null\<close>, both builders throw a \<^verbatim>\<open>TypeError\<close> and
  return no request.
\<close>

lemma request_without_data_throws:
  assumes "data event = None \<or> data event = Some JNull"
  shows "\<exists>m. transactionSessionInitializeEventToStripeCreate conv event = Inl (TypeError m)
           \<and> transactionSessionProcessEventToStripeUpdate conv event = Inl (TypeError m)"
  using assms
  by (auto simp add: transactionSessionInitializeEventToStripeCreate_def
      transactionSessionProcessEventToStripeUpdate_def)

lemma request_without_data_examples:
  "transactionSessionInitializeEventToStripeCreate mockStripeAmount mockEventNoData
     = Inl (TypeError ''Cannot read properties of undefined (reading 'metadata')'')"
  "transactionSessionInitializeEventToStripeCreate mockStripeAmount mockEventNullData
     = Inl (TypeError ''Cannot read properties of null (reading 'metadata')'')"
  by (simp_all add: transactionSessionInitializeEventToStripeCreate_def mockEventNoData_def
      mockEventNullData_def mockOrderEvent_def)

text \<open>
  The update request, returned under the same condition, overwrites \<^verbatim>\<open>amount\<close>,
  \<^verbatim>\<open>currency\<close>, \<^verbatim>\<open>capture_method\<close> and \<^verbatim>\<open>metadata\<close> only.
\<close>

lemma update_request_preserved:
  assumes "data event = Some d" and "d \<noteq> JNull"
    and "k \<notin> {''amount'', ''currency'', ''capture_method'', ''metadata''}"
  shows "\<exists>request. transactionSessionProcessEventToStripeUpdate conv event = Inr request
           \<and> map_of request k = map_of (ownEntries (Some d)) k"
proof -
  from dataMetadata_present [OF assms(2)] obtain md where "dataMetadata (Some d) = Inr md" ..
  with assms(1,3) show ?thesis
    by (simp add: transactionSessionProcessEventToStripeUpdate_def map_of_objectLiteral)
qed

text \<open>
  Claim C7, as amended. For an event whose \<^verbatim>\<open>data\<close> payload is present and not \<^verbatim>\<open>null\<close>,
  the create function returns a request. Its \<^verbatim>\<open>capture_method\<close> is \<^verbatim>\<open>automatic\<close> for the
  strategy Charge and \<^verbatim>\<open>manual\<close> for Authorization. Its metadata holds the transaction id
  and the channel id of the event; for a Checkout source the code writes \<^verbatim>\<open>checkoutId\<close>
  and leaves \<^verbatim>\<open>orderId\<close> as the caller's metadata has it, for an Order source it writes
  \<^verbatim>\<open>orderId\<close> and leaves \<^verbatim>\<open>checkoutId\<close> as the caller's metadata has it, so that the
  metadata holds exactly one of the two whenever the caller's metadata holds neither;
  every other metadata key keeps the caller's value. At the top level
  \<^verbatim>\<open>automatic_payment_methods\<close> is always set to enabled, and every key other than
  \<^verbatim>\<open>amount\<close>, \<^verbatim>\<open>currency\<close>, \<^verbatim>\<open>automatic_payment_methods\<close>, \<^verbatim>\<open>capture_method\<close> and
  \<^verbatim>\<open>metadata\<close> keeps the caller's value.
\<close>

theorem create_request_shape:
  assumes "data event = Some d" and "d \<noteq> JNull"
  shows "\<exists>request metadata callerMetadata.
      transactionSessionInitializeEventToStripeCreate conv event = Inr request
    \<and> dataMetadata (Some d) = Inr callerMetadata
    \<and> (actionType event = Charge \<longrightarrow>
          map_of request ''capture_method'' = Some (JStr ''automatic''))
    \<and> (actionType event = Authorization \<longrightarrow>
          map_of request ''capture_method'' = Some (JStr ''manual''))
    \<and> map_of request ''metadata'' = Some (JObj metadata)
    \<and> map_of metadata ''transactionId'' = Some (JStr (transactionId event))
    \<and> map_of metadata ''channelId'' = Some (JStr (channelId (sourceObject event)))
    \<and> (typename (sourceObject event) = Checkout \<longrightarrow>
          map_of metadata ''checkoutId'' = Some (JStr (sourceId (sourceObject event)))
          \<and> map_of metadata ''orderId'' = map_of (ownEntries callerMetadata) ''orderId'')
    \<and> (typename (sourceObject event) = Order \<longrightarrow>
          map_of metadata ''orderId'' = Some (JStr (sourceId (sourceObject event)))
          \<and> map_of metadata ''checkoutId'' = map_of (ownEntries callerMetadata) ''checkoutId'')
    \<and> (map_of (ownEntries callerMetadata) ''checkoutId'' = None
        \<and> map_of (ownEntries callerMetadata) ''orderId'' = None \<longrightarrow>
          (map_of metadata ''checkoutId'' = None) \<noteq> (map_of metadata ''orderId'' = None))
    \<and> (\<forall>k. k \<notin> {''transactionId'', ''channelId'', ''checkoutId'', ''orderId''} \<longrightarrow>
          map_of metadata k = map_of (ownEntries callerMetadata) k)
    \<and> map_of request ''automatic_payment_methods'' = Some (JObj [(''enabled'', JBool True)])
    \<and> (\<forall>k. k \<notin> {''amount'', ''currency'', ''automatic_payment_methods'', ''capture_method'',
               ''metadata''} \<longrightarrow>
          map_of request k = map_of (ownEntries (Some d)) k)"
proof -
  from dataMetadata_present [OF assms(2)] obtain md where md: "dataMetadata (Some d) = Inr md" ..
  let ?metadata = "eventMetadata event md"
  let ?request = "objectLiteral (ownEntries (Some d))
         [(''amount'', JNum (of_int (conv
              \<lparr>amount = amount (totalGross (sourceObject event)),
               currency = currency (totalGross (sourceObject event))\<rparr>))),
          (''currency'', JStr (currency (totalGross (sourceObject event)))),
          (''automatic_payment_methods'', JObj [(''enabled'', JBool True)]),
          (''capture_method'', JStr (captureMethod event)),
          (''metadata'', JObj ?metadata)]"
  have run: "transactionSessionInitializeEventToStripeCreate conv event = Inr ?request"
    by (rule create_request_run [OF assms(1) md])
  have cap: "actionType event = Charge \<longrightarrow>
               map_of ?request ''capture_method'' = Some (JStr ''automatic'')"
    "actionType event = Authorization \<longrightarrow>
               map_of ?request ''capture_method'' = Some (JStr ''manual'')"
    by (simp_all add: map_of_objectLiteral captureMethod_def)
  have top: "map_of ?request ''metadata'' = Some (JObj ?metadata)"
    "map_of ?request ''automatic_payment_methods'' = Some (JObj [(''enabled'', JBool True)])"
    by (simp_all add: map_of_objectLiteral)
  have keep: "\<forall>k. k \<notin> {''amount'', ''currency'', ''automatic_payment_methods'',
                    ''capture_method'', ''metadata''} \<longrightarrow>
               map_of ?request k = map_of (ownEntries (Some d)) k"
    by (simp add: map_of_objectLiteral)
  have src: "typename (sourceObject event) = Checkout \<longrightarrow>
               map_of ?metadata ''checkoutId'' = Some (JStr (sourceId (sourceObject event)))
               \<and> map_of ?metadata ''orderId'' = map_of (ownEntries md) ''orderId''"
    "typename (sourceObject event) = Order \<longrightarrow>
               map_of ?metadata ''orderId'' = Some (JStr (sourceId (sourceObject event)))
               \<and> map_of ?metadata ''checkoutId'' = map_of (ownEntries md) ''checkoutId''"
    by (simp_all add: eventMetadata_source_key)
  have one: "map_of (ownEntries md) ''checkoutId'' = None
        \<and> map_of (ownEntries md) ''orderId'' = None \<longrightarrow>
          (map_of ?metadata ''checkoutId'' = None) \<noteq> (map_of ?metadata ''orderId'' = None)"
    by (cases "typename (sourceObject event)") (simp_all add: eventMetadata_source_key)
  have mkeep: "\<forall>k. k \<notin> {''transactionId'', ''channelId'', ''checkoutId'', ''orderId''} \<longrightarrow>
          map_of ?metadata k = map_of (ownEntries md) k"
    using eventMetadata_preserved [of _ event md] by blast
  from run md cap top keep src one mkeep eventMetadata_reserved [of event md]
  show ?thesis by blast
qed

theorem create_request_shape_witness:
  "(\<exists>request metadata.
      transactionSessionInitializeEventToStripeCreate mockStripeAmount mockCheckoutEvent
        = Inr request
    \<and> map_of request ''capture_method'' = Some (JStr ''automatic'')
    \<and> map_of request ''metadata'' = Some (JObj metadata)
    \<and> map_of metadata ''transactionId'' = Some (JStr ''txn-1'')
    \<and> map_of metadata ''checkoutId'' = Some (JStr ''checkout-1'')
    \<and> map_of metadata ''orderId'' = Some (JStr ''caller-order'')
    \<and> map_of metadata ''note'' = Some (JStr ''gift'')
    \<and> map_of request ''description'' = Some (JStr ''order 7''))
   \<and> (\<exists>request metadata.
      transactionSessionInitializeEventToStripeCreate mockStripeAmount mockOrderEvent
        = Inr request
    \<and> map_of request ''capture_method'' = Some (JStr ''manual'')
    \<and> map_of request ''metadata'' = Some (JObj metadata)
    \<and> map_of metadata ''orderId'' = Some (JStr ''order-1'')
    \<and> map_of metadata ''checkoutId'' = None)"
proof -
  let ?d1 = "JObj [(''automatic_payment_methods'', JObj [(''enabled'', JBool False)]),
                (''description'', JStr ''order 7''),
                (''metadata'', JObj [(''orderId'', JStr ''caller-order''),
                                     (''note'', JStr ''gift'')])]"
  let ?d2 = "JObj [(''description'', JStr ''order 8'')]"
  have c: "data mockCheckoutEvent = Some ?d1" "?d1 \<noteq> JNull"
    "actionType mockCheckoutEvent = Charge"
    "typename (sourceObject mockCheckoutEvent) = Checkout"
    "sourceId (sourceObject mockCheckoutEvent) = ''checkout-1''"
    "transactionId mockCheckoutEvent = ''txn-1''"
    by (simp_all add: mockCheckoutEvent_def)
  have cm: "dataMetadata (Some ?d1)
      = Inr (Some (JObj [(''orderId'', JStr ''caller-order''), (''note'', JStr ''gift'')]))"
    by simp
  have d: "data mockOrderEvent = Some ?d2" "?d2 \<noteq> JNull"
    "actionType mockOrderEvent = Authorization"
    "typename (sourceObject mockOrderEvent) = Order"
    "sourceId (sourceObject mockOrderEvent) = ''order-1''"
    by (simp_all add: mockOrderEvent_def)
  have dm: "dataMetadata (Some ?d2) = Inr None" by simp
  have k1: "''note'' \<notin> {''transactionId'', ''channelId'', ''checkoutId'', ''orderId''}"
    by simp
  have k2: "''description'' \<notin> {''amount'', ''currency'', ''automatic_payment_methods'',
              ''capture_method'', ''metadata''}"
    by simp
  from create_request_shape [OF c(1,2), of mockStripeAmount]
  obtain r1 m1 cm1 where r1:
    "transactionSessionInitializeEventToStripeCreate mockStripeAmount mockCheckoutEvent = Inr r1"
    "dataMetadata (Some ?d1) = Inr cm1"
    "actionType mockCheckoutEvent = Charge \<longrightarrow>
       map_of r1 ''capture_method'' = Some (JStr ''automatic'')"
    "map_of r1 ''metadata'' = Some (JObj m1)"
    "map_of m1 ''transactionId'' = Some (JStr (transactionId mockCheckoutEvent))"
    "typename (sourceObject mockCheckoutEvent) = Checkout \<longrightarrow>
       map_of m1 ''checkoutId'' = Some (JStr (sourceId (sourceObject mockCheckoutEvent)))
       \<and> map_of m1 ''orderId'' = map_of (ownEntries cm1) ''orderId''"
    "\<forall>k. k \<notin> {''transactionId'', ''channelId'', ''checkoutId'', ''orderId''} \<longrightarrow>
       map_of m1 k = map_of (ownEntries cm1) k"
    "\<forall>k. k \<notin> {''amount'', ''currency'', ''automatic_payment_methods'', ''capture_method'',
               ''metadata''} \<longrightarrow>
       map_of r1 k = map_of (ownEntries (Some ?d1)) k"
    by (elim exE conjE) (rule that)
  from r1(2) cm have cm1: "cm1 = Some (JObj [(''orderId'', JStr ''caller-order''),
                                            (''note'', JStr ''gift'')])"
    by simp
  have a1: "map_of r1 ''capture_method'' = Some (JStr ''automatic'')"
    using r1(3) c(3) by simp
  have a2: "map_of m1 ''checkoutId'' = Some (JStr ''checkout-1'')"
    "map_of m1 ''orderId'' = Some (JStr ''caller-order'')"
    using r1(6) c(4,5) by (simp_all add: cm1)
  have a3: "map_of m1 ''note'' = Some (JStr ''gift'')"
    using r1(7) k1 by (simp add: cm1)
  have a4: "map_of r1 ''description'' = Some (JStr ''order 7'')"
    using r1(8) k2 by simp
  have a5: "map_of m1 ''transactionId'' = Some (JStr ''txn-1'')"
    using r1(5) c(6) by simp
  from create_request_shape [OF d(1,2), of mockStripeAmount]
  obtain r2 m2 cm2 where r2:
    "transactionSessionInitializeEventToStripeCreate mockStripeAmount mockOrderEvent = Inr r2"
    "dataMetadata (Some ?d2) = Inr cm2"
    "actionType mockOrderEvent = Authorization \<longrightarrow>
       map_of r2 ''capture_method'' = Some (JStr ''manual'')"
    "map_of r2 ''metadata'' = Some (JObj m2)"
    "typename (sourceObject mockOrderEvent) = Order \<longrightarrow>
       map_of m2 ''orderId'' = Some (JStr (sourceId (sourceObject mockOrderEvent)))
       \<and> map_of m2 ''checkoutId'' = map_of (ownEntries cm2) ''checkoutId''"
    by (elim exE conjE) (rule that)
  from r2(2) dm have cm2: "cm2 = None" by simp
  have b1: "map_of r2 ''capture_method'' = Some (JStr ''manual'')"
    using r2(3) d(3) by simp
  have b2: "map_of m2 ''orderId'' = Some (JStr ''order-1'')" "map_of m2 ''checkoutId'' = None"
    using r2(5) d(4,5) by (simp_all add: cm2)
  from r1(1,4) a1 a2 a3 a4 a5 r2(1,4) b1 b2 show ?thesis by blast
qed

text \<open>
  The claim as stated fails on a Checkout event whose payload carries
  \<^verbatim>\<open>automatic_payment_methods\<close> disabled and a metadata key \<^verbatim>\<open>orderId\<close>: the request has
  \<^verbatim>\<open>automatic_payment_methods\<close> enabled, a top-level field that the claim does not list as
  overwritten, and its metadata holds both \<^verbatim>\<open>checkoutId\<close> and \<^verbatim>\<open>orderId\<close>, not exactly one
  of them.
\<close>

theorem create_request_overwrite_counterexample:
  "data mockCheckoutEvent
     = Some (JObj [(''automatic_payment_methods'', JObj [(''enabled'', JBool False)]),
                   (''description'', JStr ''order 7''),
                   (''metadata'', JObj [(''orderId'', JStr ''caller-order''),
                                        (''note'', JStr ''gift'')])])
   \<and> typename (sourceObject mockCheckoutEvent) = Checkout
   \<and> transactionSessionInitializeEventToStripeCreate mockStripeAmount mockCheckoutEvent
     = Inr [(''automatic_payment_methods'', JObj [(''enabled'', JBool True)]),
            (''description'', JStr ''order 7''),
            (''metadata'',
             JObj [(''orderId'', JStr ''caller-order''), (''note'', JStr ''gift''),
                   (''transactionId'', JStr ''txn-1''), (''channelId'', JStr ''channel-1''),
                   (''checkoutId'', JStr ''checkout-1'')]),
            (''amount'', JNum 22299), (''currency'', JStr ''usd''),
            (''capture_method'', JStr ''automatic'')]"
  by (simp add: transactionSessionInitializeEventToStripeCreate_def mockCheckoutEvent_def
      mockStripeAmount_def eventMetadata_def objectLiteral_def captureMethod_def)

section \<open>Resolution of the configuration of a channel\<close>

text \<open>
  Claim C10. \<^verbatim>\<open>getConfigurationForChannel\<close> raises nothing (its model has no error
  result) and returns \<^verbatim>\<open>null\<close> when the channel id is \<^verbatim>\<open>undefined\<close>, \<^verbatim>\<open>null\<close> or the
  empty string, when the channel has no mapping, and when no entry has the mapped
  configuration id.
\<close>

theorem getConfigurationForChannel_null_cases:
  "getConfigurationForChannel appConfig Undefined = None
   \<and> getConfigurationForChannel appConfig Null = None
   \<and> getConfigurationForChannel appConfig (Defined []) = None
   \<and> (channelToConfigurationId appConfig ch = None \<longrightarrow>
        getConfigurationForChannel appConfig (Defined ch) = None)
   \<and> (channelToConfigurationId appConfig ch = Some cid
        \<and> (\<forall>entry \<in> set (configurations appConfig). configurationId entry \<noteq> cid) \<longrightarrow>
        getConfigurationForChannel appConfig (Defined ch) = None)"
  by (auto simp add: getConfigurationForChannel_def find_None_iff)

theorem getConfigurationForChannel_null_cases_witness:
  "channelToConfigurationId (sampleConfig\<lparr>configurations := [entryB]\<rparr>) ''channel-9'' = None
   \<and> getConfigurationForChannel (sampleConfig\<lparr>configurations := [entryB]\<rparr>)
        (Defined ''channel-9'') = None
   \<and> channelToConfigurationId (sampleConfig\<lparr>configurations := [entryB]\<rparr>) ''channel-1''
        = Some ''cfg-a''
   \<and> \<not> (\<exists>entry \<in> set (configurations (sampleConfig\<lparr>configurations := [entryB]\<rparr>)).
           configurationId entry = ''cfg-a'')
   \<and> getConfigurationForChannel (sampleConfig\<lparr>configurations := [entryB]\<rparr>)
        (Defined ''channel-1'') = None"
proof -
  let ?c = "sampleConfig\<lparr>configurations := [entryB]\<rparr>"
  have a: "channelToConfigurationId ?c ''channel-9'' = None"
    by (simp add: sampleConfig_def sampleMapping_def)
  have b: "channelToConfigurationId ?c ''channel-1'' = Some ''cfg-a''"
    by (simp add: sampleConfig_def sampleMapping_def)
  have c: "\<forall>entry \<in> set (configurations ?c). configurationId entry \<noteq> ''cfg-a''"
    by (simp add: sampleConfig_def entryB_def)
  from getConfigurationForChannel_null_cases [of ?c "''channel-9''" "''cfg-a''"]
       getConfigurationForChannel_null_cases [of ?c "''channel-1''" "''cfg-a''"] a b c
  show ?thesis by blast
qed

text \<open>
  On the aggregate of the test helper, channel \<^verbatim>\<open>1\<close> resolves to the entry \<^verbatim>\<open>mock-id\<close>.
\<close>

lemma getConfigurationForChannel_resolves:
  "getConfigurationForChannel filledFakeMatadataConfig (Defined ''1'')
     = Some (hd (configurations filledFakeMatadataConfig))
   \<and> configurationId (hd (configurations filledFakeMatadataConfig)) = ''mock-id''"
  by (simp add: getConfigurationForChannel_def filledFakeMatadataConfig_def)

section \<open>The configurator: reading, upsert, delete\<close>

lemma findIndex_lower: "- 1 \<le> findIndex P xs"
  by (induction xs) (auto simp add: Let_def)

lemma findIndex_none: "findIndex P xs = - 1 \<longleftrightarrow> (\<forall>x \<in> set xs. \<not> P x)"
proof (induction xs)
  case Nil
  show ?case by simp
next
  case (Cons x xs)
  have "- 1 \<le> findIndex P xs" by (rule findIndex_lower)
  then have "findIndex P xs + 1 \<noteq> - 1" by arith
  with Cons show ?case by (auto simp add: Let_def)
qed

lemma findIndex_first:
  assumes "findIndex P xs \<noteq> - 1"
  shows "nat (findIndex P xs) < length xs \<and> P (xs ! nat (findIndex P xs))
         \<and> (\<forall>j < nat (findIndex P xs). \<not> P (xs ! j))"
  using assms
proof (induction xs)
  case Nil
  then show ?case by simp
next
  case (Cons x xs)
  show ?case
  proof (cases "P x")
    case True
    then show ?thesis by simp
  next
    case False
    with Cons.prems have ne: "findIndex P xs \<noteq> - 1"
      by (auto simp add: Let_def split: if_splits)
    have lo: "- 1 \<le> findIndex P xs" by (rule findIndex_lower)
    with ne have nn: "0 \<le> findIndex P xs" by arith
    have eq: "findIndex P (x # xs) = findIndex P xs + 1"
      using False ne by (simp add: Let_def)
    have n: "nat (findIndex P xs + 1) = Suc (nat (findIndex P xs))"
      using nn by arith
    from Cons.IH [OF ne] False show ?thesis
      by (auto simp add: eq n nth_Cons' simp del: findIndex.simps)
  qed
qed

lemma getConfig_frame:
  "privateMetadata w' = privateMetadata w \<Longrightarrow>
   AppConfigurator_getConfig env w' = AppConfigurator_getConfig env w"
  by (simp add: AppConfigurator_getConfig_def PrivateMetadataAppConfigurator_getConfig_def)

text \<open>
  The spread of one property and the read of one property, by the state of the payload's
  property.
\<close>

lemma spreadOver_cases:
  "spreadOver existing p = (case p of Missing \<Rightarrow> existing | Undef \<Rightarrow> None | Val v \<Rightarrow> Some v)"
  by (cases p) simp_all

lemma readProperty_cases:
  "readProperty p = (case p of Missing \<Rightarrow> None | Undef \<Rightarrow> None | Val v \<Rightarrow> Some v)"
  by (cases p) simp_all

lemma sample_getConfig:
  "AppConfigurator_getConfig mockCollaborators sampleWorld = Inr sampleConfig"
  by (simp add: AppConfigurator_getConfig_def adyenAppConfigSchema_parse_def
      PrivateMetadataAppConfigurator_getConfig_def mockCollaborators_def sampleWorld_def
      sampleConfig_def)

text \<open>
  Claim C9. When the stored aggregate reads as \<open>config\<close>, \<^verbatim>\<open>setConfigEntry\<close> succeeds and
  leaves the stored channel mapping as it was. If some entry has the payload's
  configuration id, the first such entry, at index \<open>i\<close>, is replaced in place, every other
  position of the list being unchanged, by the entry that has the payload's id and, for
  each other field, the payload's value when the payload has the property (also when
  that value is \<^verbatim>\<open>undefined\<close>) and the existing entry's value when the payload lacks it.
  If no entry has the id, the payload, read as an entry, is appended at the end of the
  list.
\<close>

theorem setConfigEntry_upsert:
  assumes "AppConfigurator_getConfig env w = Inr config"
  shows "\<exists>w'. AppConfigurator_setConfigEntry env newConfiguration w = (Inr (), w')
     \<and> channelToConfigurationIdField (privateMetadata w')
         = channelToConfigurationIdField (privateMetadata w)
     \<and> (if \<exists>entry \<in> set (configurations config).
              configurationId entry = updConfigurationId newConfiguration
        then \<exists>i < length (configurations config).
               configurationId (configurations config ! i) = updConfigurationId newConfiguration
               \<and> (\<forall>j < i. configurationId (configurations config ! j)
                            \<noteq> updConfigurationId newConfiguration)
               \<and> configurationsField (privateMetadata w')
                   = Some ((configurations config)
                       [i :=
                         \<lparr>configurationId = updConfigurationId newConfiguration,
                          configurationName =
                            (case updConfigurationName newConfiguration of
                               Missing \<Rightarrow> configurationName (configurations config ! i)
                             | Undef \<Rightarrow> None | Val v \<Rightarrow> Some v),
                          secretKey =
                            (case updSecretKey newConfiguration of
                               Missing \<Rightarrow> secretKey (configurations config ! i)
                             | Undef \<Rightarrow> None | Val v \<Rightarrow> Some v),
                          publishableKey =
                            (case updPublishableKey newConfiguration of
                               Missing \<Rightarrow> publishableKey (configurations config ! i)
                             | Undef \<Rightarrow> None | Val v \<Rightarrow> Some v),
                          webhookId =
                            (case updWebhookId newConfiguration of
                               Missing \<Rightarrow> webhookId (configurations config ! i)
                             | Undef \<Rightarrow> None | Val v \<Rightarrow> Some v),
                          webhookSecret =
                            (case updWebhookSecret newConfiguration of
                               Missing \<Rightarrow> webhookSecret (configurations config ! i)
                             | Undef \<Rightarrow> None | Val v \<Rightarrow> Some v)\<rparr>])
        else configurationsField (privateMetadata w')
               = Some (configurations config @
                   [\<lparr>configurationId = updConfigurationId newConfiguration,
                     configurationName =
                       (case updConfigurationName newConfiguration of
                          Missing \<Rightarrow> None | Undef \<Rightarrow> None | Val v \<Rightarrow> Some v),
                     secretKey =
                       (case updSecretKey newConfiguration of
                          Missing \<Rightarrow> None | Undef \<Rightarrow> None | Val v \<Rightarrow> Some v),
                     publishableKey =
                       (case updPublishableKey newConfiguration of
                          Missing \<Rightarrow> None | Undef \<Rightarrow> None | Val v \<Rightarrow> Some v),
                     webhookId =
                       (case updWebhookId newConfiguration of
                          Missing \<Rightarrow> None | Undef \<Rightarrow> None | Val v \<Rightarrow> Some v),
                     webhookSecret =
                       (case updWebhookSecret newConfiguration of
                          Missing \<Rightarrow> None | Undef \<Rightarrow> None | Val v \<Rightarrow> Some v)\<rparr>]))"
proof (cases "findIndex (\<lambda>entry. configurationId entry = updConfigurationId newConfiguration)
                (configurations config) = - 1")
  case True
  then have none: "\<not> (\<exists>entry \<in> set (configurations config).
                         configurationId entry = updConfigurationId newConfiguration)"
    by (simp add: findIndex_none)
  have run: "AppConfigurator_setConfigEntry env newConfiguration w
     = (Inr (), PrivateMetadataAppConfigurator_setConfig
          \<lparr>configurationsField = Some (configurations config @ [asEntry newConfiguration]),
           channelToConfigurationIdField = None\<rparr> False w)"
    using assms True
    by (simp add: AppConfigurator_setConfigEntry_def AppConfigurator_setConfig_def Let_def)
  show ?thesis
    unfolding run using none
    by (simp add: PrivateMetadataAppConfigurator_setConfig_def mergePartial_def asEntry_def
        readProperty_cases)
next
  case False
  let ?i = "nat (findIndex (\<lambda>entry. configurationId entry = updConfigurationId newConfiguration)
                  (configurations config))"
  from findIndex_first [OF False]
  have first: "?i < length (configurations config)"
    "configurationId (configurations config ! ?i) = updConfigurationId newConfiguration"
    "\<forall>j < ?i. configurationId (configurations config ! j) \<noteq> updConfigurationId newConfiguration"
    by simp_all
  from False have some: "\<exists>entry \<in> set (configurations config).
                           configurationId entry = updConfigurationId newConfiguration"
    by (simp add: findIndex_none)
  have run: "AppConfigurator_setConfigEntry env newConfiguration w
     = (Inr (), PrivateMetadataAppConfigurator_setConfig
          \<lparr>configurationsField = Some ((configurations config)
              [?i := mergeEntry (configurations config ! ?i) newConfiguration]),
           channelToConfigurationIdField = None\<rparr> False w)"
    using assms False
    by (simp add: AppConfigurator_setConfigEntry_def AppConfigurator_setConfig_def Let_def)
  have stored: "configurationsField (privateMetadata (PrivateMetadataAppConfigurator_setConfig
          \<lparr>configurationsField = Some ((configurations config)
              [?i := mergeEntry (configurations config ! ?i) newConfiguration]),
           channelToConfigurationIdField = None\<rparr> False w))
     = Some ((configurations config)
              [?i := mergeEntry (configurations config ! ?i) newConfiguration])"
    "channelToConfigurationIdField (privateMetadata (PrivateMetadataAppConfigurator_setConfig
          \<lparr>configurationsField = Some ((configurations config)
              [?i := mergeEntry (configurations config ! ?i) newConfiguration]),
           channelToConfigurationIdField = None\<rparr> False w))
     = channelToConfigurationIdField (privateMetadata w)"
    by (simp_all add: PrivateMetadataAppConfigurator_setConfig_def mergePartial_def)
  show ?thesis
    unfolding run using some first stored
    by (auto simp add: mergeEntry_def spreadOver_cases)
qed

theorem setConfigEntry_upsert_witness:
  "AppConfigurator_getConfig mockCollaborators sampleWorld = Inr sampleConfig
   \<and> (\<exists>w'. AppConfigurator_setConfigEntry mockCollaborators renameB sampleWorld = (Inr (), w')
        \<and> channelToConfigurationIdField (privateMetadata w') = Some sampleMapping
        \<and> configurationsField (privateMetadata w')
            = Some [entryA,
                    \<lparr>configurationId = ''cfg-b'', configurationName = Some ''renamed'',
                     secretKey = Some ''sk_test_1'', publishableKey = Some ''pk_test_9'',
                     webhookId = Some ''we_1'', webhookSecret = None\<rparr>,
                    entryC])
   \<and> (\<exists>w'. AppConfigurator_setConfigEntry mockCollaborators payloadD sampleWorld = (Inr (), w')
        \<and> channelToConfigurationIdField (privateMetadata w') = Some sampleMapping
        \<and> configurationsField (privateMetadata w')
            = Some [entryA, entryB, entryC,
                    \<lparr>configurationId = ''cfg-d'', configurationName = Some ''D'',
                     secretKey = Some ''sk_test_4'', publishableKey = None,
                     webhookId = None, webhookSecret = None\<rparr>])"
proof -
  have cs: "configurations sampleConfig = [entryA, entryB, entryC]"
    by (simp add: sampleConfig_def)
  have ch: "channelToConfigurationIdField (privateMetadata sampleWorld) = Some sampleMapping"
    by (simp add: sampleWorld_def)
  have ex: "\<exists>entry \<in> set (configurations sampleConfig).
              configurationId entry = updConfigurationId renameB"
    by (simp add: cs entryB_def renameB_def)
  have nex: "\<not> (\<exists>entry \<in> set (configurations sampleConfig).
              configurationId entry = updConfigurationId payloadD)"
    by (simp add: cs entryA_def entryB_def entryC_def payloadD_def)
  from setConfigEntry_upsert [OF sample_getConfig, of renameB] ex
  obtain w1 i where r1:
    "AppConfigurator_setConfigEntry mockCollaborators renameB sampleWorld = (Inr (), w1)"
    "channelToConfigurationIdField (privateMetadata w1)
       = channelToConfigurationIdField (privateMetadata sampleWorld)"
    "i < length (configurations sampleConfig)"
    "configurationId (configurations sampleConfig ! i) = updConfigurationId renameB"
    "configurationsField (privateMetadata w1)
       = Some ((configurations sampleConfig)
           [i :=
             \<lparr>configurationId = updConfigurationId renameB,
              configurationName =
                (case updConfigurationName renameB of
                   Missing \<Rightarrow> configurationName (configurations sampleConfig ! i)
                 | Undef \<Rightarrow> None | Val v \<Rightarrow> Some v),
              secretKey =
                (case updSecretKey renameB of
                   Missing \<Rightarrow> secretKey (configurations sampleConfig ! i)
                 | Undef \<Rightarrow> None | Val v \<Rightarrow> Some v),
              publishableKey =
                (case updPublishableKey renameB of
                   Missing \<Rightarrow> publishableKey (configurations sampleConfig ! i)
                 | Undef \<Rightarrow> None | Val v \<Rightarrow> Some v),
              webhookId =
                (case updWebhookId renameB of
                   Missing \<Rightarrow> webhookId (configurations sampleConfig ! i)
                 | Undef \<Rightarrow> None | Val v \<Rightarrow> Some v),
              webhookSecret =
                (case updWebhookSecret renameB of
                   Missing \<Rightarrow> webhookSecret (configurations sampleConfig ! i)
                 | Undef \<Rightarrow> None | Val v \<Rightarrow> Some v)\<rparr>])"
    by auto
  from r1(3) have "i = 0 \<or> i = 1 \<or> i = 2" by (auto simp add: cs)
  with r1(4) have i: "i = 1"
    by (auto simp add: cs entryA_def entryB_def entryC_def renameB_def)
  from r1(5) have c1: "configurationsField (privateMetadata w1)
       = Some [entryA,
               \<lparr>configurationId = ''cfg-b'', configurationName = Some ''renamed'',
                secretKey = Some ''sk_test_1'', publishableKey = Some ''pk_test_9'',
                webhookId = Some ''we_1'', webhookSecret = None\<rparr>,
               entryC]"
    by (simp add: i cs renameB_def entryB_def)
  from setConfigEntry_upsert [OF sample_getConfig, of payloadD] nex
  obtain w2 where r2:
    "AppConfigurator_setConfigEntry mockCollaborators payloadD sampleWorld = (Inr (), w2)"
    "channelToConfigurationIdField (privateMetadata w2)
       = channelToConfigurationIdField (privateMetadata sampleWorld)"
    "configurationsField (privateMetadata w2)
       = Some (configurations sampleConfig @
           [\<lparr>configurationId = updConfigurationId payloadD,
             configurationName =
               (case updConfigurationName payloadD of
                  Missing \<Rightarrow> None | Undef \<Rightarrow> None | Val v \<Rightarrow> Some v),
             secretKey =
               (case updSecretKey payloadD of
                  Missing \<Rightarrow> None | Undef \<Rightarrow> None | Val v \<Rightarrow> Some v),
             publishableKey =
               (case updPublishableKey payloadD of
                  Missing \<Rightarrow> None | Undef \<Rightarrow> None | Val v \<Rightarrow> Some v),
             webhookId =
               (case updWebhookId payloadD of
                  Missing \<Rightarrow> None | Undef \<Rightarrow> None | Val v \<Rightarrow> Some v),
             webhookSecret =
               (case updWebhookSecret payloadD of
                  Missing \<Rightarrow> None | Undef \<Rightarrow> None | Val v \<Rightarrow> Some v)\<rparr>])"
    by auto
  from r2(3) have c2: "configurationsField (privateMetadata w2)
       = Some [entryA, entryB, entryC,
               \<lparr>configurationId = ''cfg-d'', configurationName = Some ''D'',
                secretKey = Some ''sk_test_4'', publishableKey = None,
                webhookId = None, webhookSecret = None\<rparr>]"
    by (simp add: cs payloadD_def)
  from r1(1,2) c1 r2(1,2) c2 ch sample_getConfig show ?thesis by simp
qed

section \<open>Add: nothing is persisted when validation or provisioning fails\<close>

text \<open>
  Claim C3. If credential validation fails, \<^verbatim>\<open>addConfigEntry\<close> raises that error and
  the whole state is as before: nothing is written, no id is generated and the webhook
  provisioner is not called. If validation passes and the webhook provisioning fails,
  \<^verbatim>\<open>addConfigEntry\<close> raises that error, and the persisted record, the list of writes and
  the number of generated ids are as before.
\<close>

theorem addConfigEntry_aborts:
  "(validateStripeKeys (stripeApi env) (formSecretKey newConfigEntry)
        (formPublishableKey newConfigEntry) = Inl err \<longrightarrow>
      addConfigEntry env newConfigEntry appUrl w = (Inl err, w))
   \<and> (validateStripeKeys (stripeApi env) (formSecretKey newConfigEntry)
        (formPublishableKey newConfigEntry) = Inr ()
       \<and> fst (createStripeWebhook env appUrl (formSecretKey newConfigEntry) w) = Inl err \<longrightarrow>
      fst (addConfigEntry env newConfigEntry appUrl w) = Inl err
      \<and> privateMetadata (snd (addConfigEntry env newConfigEntry appUrl w)) = privateMetadata w
      \<and> setConfigCalls (snd (addConfigEntry env newConfigEntry appUrl w)) = setConfigCalls w
      \<and> uuidv7Calls (snd (addConfigEntry env newConfigEntry appUrl w)) = uuidv7Calls w)"
  by (auto simp add: addConfigEntry_def createStripeWebhook_def split: sum.splits prod.splits)

theorem addConfigEntry_aborts_witness:
  "validateStripeKeys (stripeApi mockCollaborators) ''sk_test_wrong'' ''pk_test_valid''
     = Inl (InvalidSecretKeyError ''Provided secret key is invalid'')
   \<and> addConfigEntry mockCollaborators
        \<lparr>formConfigurationName = ''new'', formSecretKey = ''sk_test_wrong'',
         formPublishableKey = ''pk_test_valid''\<rparr> ''https://app.example'' sampleWorld
     = (Inl (InvalidSecretKeyError ''Provided secret key is invalid''), sampleWorld)
   \<and> validateStripeKeys (stripeApi mockCollaborators) ''sk_test_nohook'' ''pk_test_valid''
     = Inr ()
   \<and> fst (createStripeWebhook mockCollaborators ''https://app.example'' ''sk_test_nohook''
            sampleWorld)
     = Inl (UpstreamError ''webhook endpoint was not created'')
   \<and> fst (addConfigEntry mockCollaborators
        \<lparr>formConfigurationName = ''new'', formSecretKey = ''sk_test_nohook'',
         formPublishableKey = ''pk_test_valid''\<rparr> ''https://app.example'' sampleWorld)
     = Inl (UpstreamError ''webhook endpoint was not created'')
   \<and> privateMetadata (snd (addConfigEntry mockCollaborators
        \<lparr>formConfigurationName = ''new'', formSecretKey = ''sk_test_nohook'',
         formPublishableKey = ''pk_test_valid''\<rparr> ''https://app.example'' sampleWorld))
     = privateMetadata sampleWorld
   \<and> uuidv7Calls (snd (addConfigEntry mockCollaborators
        \<lparr>formConfigurationName = ''new'', formSecretKey = ''sk_test_nohook'',
         formPublishableKey = ''pk_test_valid''\<rparr> ''https://app.example'' sampleWorld))
     = uuidv7Calls sampleWorld"
proof -
  let ?bad = "\<lparr>formConfigurationName = ''new'', formSecretKey = ''sk_test_wrong'',
         formPublishableKey = ''pk_test_valid''\<rparr>"
  let ?nohook = "\<lparr>formConfigurationName = ''new'', formSecretKey = ''sk_test_nohook'',
         formPublishableKey = ''pk_test_valid''\<rparr>"
  have v1: "validateStripeKeys (stripeApi mockCollaborators) (formSecretKey ?bad)
              (formPublishableKey ?bad)
     = Inl (InvalidSecretKeyError ''Provided secret key is invalid'')"
    by (simp add: validateStripeKeys_def mockCollaborators_def mockStripeApi_def)
  have v2: "validateStripeKeys (stripeApi mockCollaborators) (formSecretKey ?nohook)
              (formPublishableKey ?nohook) = Inr ()"
    by (simp add: validateStripeKeys_def mockCollaborators_def mockStripeApi_def)
  have c2: "fst (createStripeWebhook mockCollaborators ''https://app.example''
                   (formSecretKey ?nohook) sampleWorld)
     = Inl (UpstreamError ''webhook endpoint was not created'')"
    by (simp add: createStripeWebhook_def mockCollaborators_def)
  from addConfigEntry_aborts [of mockCollaborators ?bad
         "InvalidSecretKeyError ''Provided secret key is invalid''" "''https://app.example''"
         sampleWorld] v1
  have r1: "addConfigEntry mockCollaborators ?bad ''https://app.example'' sampleWorld
     = (Inl (InvalidSecretKeyError ''Provided secret key is invalid''), sampleWorld)"
    by blast
  from addConfigEntry_aborts [of mockCollaborators ?nohook
         "UpstreamError ''webhook endpoint was not created''" "''https://app.example''"
         sampleWorld] v2 c2
  have r2: "fst (addConfigEntry mockCollaborators ?nohook ''https://app.example'' sampleWorld)
       = Inl (UpstreamError ''webhook endpoint was not created'')
     \<and> privateMetadata (snd (addConfigEntry mockCollaborators ?nohook ''https://app.example''
          sampleWorld)) = privateMetadata sampleWorld
     \<and> uuidv7Calls (snd (addConfigEntry mockCollaborators ?nohook ''https://app.example''
          sampleWorld)) = uuidv7Calls sampleWorld"
    by blast
  from v1 v2 c2 r1 r2 show ?thesis by simp
qed

section \<open>Delete: the entry, its mappings and its webhook\<close>

lemma configurator_delete_run:
  assumes "AppConfigurator_getConfig env w = Inr config"
  shows "AppConfigurator_deleteConfigEntry env cid w
     = (Inr (),
        w\<lparr>privateMetadata :=
            \<lparr>configurationsField =
               Some (filter (\<lambda>entry. configurationId entry \<noteq> cid) (configurations config)),
             channelToConfigurationIdField =
               Some (filterEntries (\<lambda>configId. configId \<noteq> cid)
                       (channelToConfigurationId config))\<rparr>,
          setConfigCalls := setConfigCalls w @
            [(\<lparr>configurationsField =
                 Some (filter (\<lambda>entry. configurationId entry \<noteq> cid) (configurations config)),
               channelToConfigurationIdField =
                 Some (filterEntries (\<lambda>configId. configId \<noteq> cid)
                         (channelToConfigurationId config))\<rparr>, True)]\<rparr>)"
  using assms
  by (simp add: AppConfigurator_deleteConfigEntry_def AppConfigurator_setConfig_def
      PrivateMetadataAppConfigurator_setConfig_def Let_def)

lemma filterEntries_apply:
  "filterEntries (\<lambda>v. v \<noteq> cid) m ch = (if m ch = Some cid then None else m ch)"
  by (simp add: filterEntries_def split: option.splits)

lemma manager_delete_run:
  assumes cfg: "AppConfigurator_getConfig env w = Inr config"
    and ex: "find (\<lambda>entry. configurationId entry = cid) (configurations config)
               = Some existingEntry"
  shows "deleteConfigEntry env cid w
     = AppConfigurator_deleteConfigEntry env cid
         (if \<exists>entry \<in> set (configurations config).
               configurationId entry \<noteq> cid \<and> webhookId entry = webhookId existingEntry
          then w
          else w\<lparr>deleteStripeWebhookCalls := deleteStripeWebhookCalls w @
                   [(webhookId existingEntry, secretKey existingEntry)]\<rparr>)"
proof -
  have used: "list_ex (\<lambda>entry. webhookId entry = webhookId existingEntry)
                (filter (\<lambda>entry. configurationId entry \<noteq> cid) (configurations config))
     \<longleftrightarrow> (\<exists>entry \<in> set (configurations config).
            configurationId entry \<noteq> cid \<and> webhookId entry = webhookId existingEntry)"
    by (auto simp add: list_ex_iff)
  show ?thesis
  proof (cases "\<exists>entry \<in> set (configurations config).
            configurationId entry \<noteq> cid \<and> webhookId entry = webhookId existingEntry")
    case True
    with used have "list_ex (\<lambda>entry. webhookId entry = webhookId existingEntry)
                (filter (\<lambda>entry. configurationId entry \<noteq> cid) (configurations config))"
      by simp
    with cfg ex have run: "deleteConfigEntry env cid w = AppConfigurator_deleteConfigEntry env cid w"
      by (simp add: deleteConfigEntry_def getAllConfigEntriesDecrypted_def Let_def)
    show ?thesis by (subst if_P [OF True]) (rule run)
  next
    case False
    with used have "\<not> list_ex (\<lambda>entry. webhookId entry = webhookId existingEntry)
                (filter (\<lambda>entry. configurationId entry \<noteq> cid) (configurations config))"
      by simp
    with cfg ex have run: "deleteConfigEntry env cid w
        = AppConfigurator_deleteConfigEntry env cid
            (w\<lparr>deleteStripeWebhookCalls := deleteStripeWebhookCalls w @
                 [(webhookId existingEntry, secretKey existingEntry)]\<rparr>)"
      by (simp add: deleteConfigEntry_def getAllConfigEntriesDecrypted_def Let_def
          deleteStripeWebhook_def split: sum.splits)
    show ?thesis by (subst if_not_P [OF False]) (rule run)
  qed
qed

lemma find_existing:
  "\<exists>entry \<in> set xs. P entry \<Longrightarrow> \<exists>e. find P xs = Some e"
  by (cases "find P xs") (auto simp add: find_None_iff)

lemma sample_find:
  "find (\<lambda>entry. configurationId entry = ''cfg-a'') (configurations sampleConfig) = Some entryA"
  "find (\<lambda>entry. configurationId entry = ''cfg-c'') (configurations sampleConfig) = Some entryC"
  by (simp_all add: sampleConfig_def entryA_def entryB_def entryC_def)

lemma sample_filter:
  "filter (\<lambda>entry. configurationId entry \<noteq> ''cfg-a'') (configurations sampleConfig)
     = [entryB, entryC]"
  "filter (\<lambda>entry. configurationId entry \<noteq> ''cfg-c'') (configurations sampleConfig)
     = [entryA, entryB]"
  by (simp_all add: sampleConfig_def entryA_def entryB_def entryC_def)

lemma sample_webhooks:
  "\<exists>entry \<in> set (configurations sampleConfig).
      configurationId entry \<noteq> ''cfg-a'' \<and> webhookId entry = webhookId entryA"
  "\<forall>entry \<in> set (configurations sampleConfig).
      configurationId entry \<noteq> ''cfg-c'' \<longrightarrow> webhookId entry \<noteq> webhookId entryC"
  by (simp_all add: sampleConfig_def entryA_def entryB_def entryC_def)

text \<open>
  Claim C4. When the stored aggregate reads as \<open>config\<close> and has an entry with the id,
  \<^verbatim>\<open>deleteConfigEntry\<close> succeeds; the persisted record then holds the entries whose id is
  another one, in their order, and the mapping without the channels that mapped to the
  id and with every other channel as before; and exactly one write was made, of this
  record, with \<^verbatim>\<open>replace\<close> true.
\<close>

theorem deleteConfigEntry_removes_entry_and_mappings:
  assumes "AppConfigurator_getConfig env w = Inr config"
    and "\<exists>entry \<in> set (configurations config). configurationId entry = cid"
  shows "\<exists>w' m'. deleteConfigEntry env cid w = (Inr (), w')
     \<and> privateMetadata w'
         = \<lparr>configurationsField =
              Some (filter (\<lambda>entry. configurationId entry \<noteq> cid) (configurations config)),
            channelToConfigurationIdField = Some m'\<rparr>
     \<and> (\<forall>ch. m' ch = (if channelToConfigurationId config ch = Some cid then None
                       else channelToConfigurationId config ch))
     \<and> setConfigCalls w' = setConfigCalls w @ [(privateMetadata w', True)]"
proof -
  from find_existing [OF assms(2)] obtain existingEntry
    where ex: "find (\<lambda>entry. configurationId entry = cid) (configurations config)
                 = Some existingEntry" by blast
  let ?w1 = "if \<exists>entry \<in> set (configurations config).
               configurationId entry \<noteq> cid \<and> webhookId entry = webhookId existingEntry
          then w
          else w\<lparr>deleteStripeWebhookCalls := deleteStripeWebhookCalls w @
                   [(webhookId existingEntry, secretKey existingEntry)]\<rparr>"
  have pm: "privateMetadata ?w1 = privateMetadata w" by simp
  have calls: "setConfigCalls ?w1 = setConfigCalls w" by simp
  have cfg1: "AppConfigurator_getConfig env ?w1 = Inr config"
    using getConfig_frame [OF pm] assms(1) by simp
  show ?thesis
    unfolding manager_delete_run [OF assms(1) ex] configurator_delete_run [OF cfg1]
    using calls by (simp add: filterEntries_apply)
qed

theorem deleteConfigEntry_removes_entry_and_mappings_witness:
  "AppConfigurator_getConfig mockCollaborators sampleWorld = Inr sampleConfig
   \<and> (\<exists>entry \<in> set (configurations sampleConfig). configurationId entry = ''cfg-a'')
   \<and> (\<exists>w' m'. deleteConfigEntry mockCollaborators ''cfg-a'' sampleWorld = (Inr (), w')
        \<and> privateMetadata w'
            = \<lparr>configurationsField = Some [entryB, entryC],
               channelToConfigurationIdField = Some m'\<rparr>
        \<and> m' ''channel-1'' = None
        \<and> m' ''channel-2'' = Some ''cfg-c''
        \<and> m' ''channel-3'' = None
        \<and> setConfigCalls w' = [(privateMetadata w', True)])"
proof -
  have h: "\<exists>entry \<in> set (configurations sampleConfig). configurationId entry = ''cfg-a''"
    by (simp add: sampleConfig_def entryA_def)
  have m: "channelToConfigurationId sampleConfig ''channel-1'' = Some ''cfg-a''"
    "channelToConfigurationId sampleConfig ''channel-2'' = Some ''cfg-c''"
    "channelToConfigurationId sampleConfig ''channel-3'' = Some ''cfg-a''"
    by (simp_all add: sampleConfig_def sampleMapping_def)
  have l: "setConfigCalls sampleWorld = []" by (simp add: sampleWorld_def)
  from deleteConfigEntry_removes_entry_and_mappings [OF sample_getConfig h]
  obtain w' m' where r:
    "deleteConfigEntry mockCollaborators ''cfg-a'' sampleWorld = (Inr (), w')"
    "privateMetadata w'
       = \<lparr>configurationsField =
            Some (filter (\<lambda>entry. configurationId entry \<noteq> ''cfg-a'')
                    (configurations sampleConfig)),
          channelToConfigurationIdField = Some m'\<rparr>"
    "\<forall>ch. m' ch = (if channelToConfigurationId sampleConfig ch = Some ''cfg-a'' then None
                    else channelToConfigurationId sampleConfig ch)"
    "setConfigCalls w' = setConfigCalls sampleWorld @ [(privateMetadata w', True)]"
    by blast
  have "m' ''channel-1'' = None" "m' ''channel-2'' = Some ''cfg-c''" "m' ''channel-3'' = None"
    using r(3) m by simp_all
  with r l sample_getConfig h show ?thesis
    by (simp add: sample_filter)
qed

text \<open>
  Claim C5. On the delete of an existing entry, the processor-side webhook deletion is
  not attempted when another entry, of another id, has the same webhook id, and it is
  attempted once, with the entry's webhook id and secret key, when no other entry has.
\<close>

theorem deleteConfigEntry_webhook_retired_iff_unshared:
  assumes "AppConfigurator_getConfig env w = Inr config"
    and "find (\<lambda>entry. configurationId entry = cid) (configurations config)
           = Some existingEntry"
  shows "((\<exists>entry \<in> set (configurations config).
             configurationId entry \<noteq> cid \<and> webhookId entry = webhookId existingEntry) \<longrightarrow>
            deleteStripeWebhookCalls (snd (deleteConfigEntry env cid w))
              = deleteStripeWebhookCalls w)
       \<and> ((\<forall>entry \<in> set (configurations config).
             configurationId entry \<noteq> cid \<longrightarrow> webhookId entry \<noteq> webhookId existingEntry) \<longrightarrow>
            deleteStripeWebhookCalls (snd (deleteConfigEntry env cid w))
              = deleteStripeWebhookCalls w @
                  [(webhookId existingEntry, secretKey existingEntry)])"
proof -
  let ?w1 = "if \<exists>entry \<in> set (configurations config).
               configurationId entry \<noteq> cid \<and> webhookId entry = webhookId existingEntry
          then w
          else w\<lparr>deleteStripeWebhookCalls := deleteStripeWebhookCalls w @
                   [(webhookId existingEntry, secretKey existingEntry)]\<rparr>"
  have pm: "privateMetadata ?w1 = privateMetadata w" by simp
  have cfg1: "AppConfigurator_getConfig env ?w1 = Inr config"
    using getConfig_frame [OF pm] assms(1) by simp
  show ?thesis
    unfolding manager_delete_run [OF assms] configurator_delete_run [OF cfg1]
    by auto
qed

theorem deleteConfigEntry_webhook_retired_iff_unshared_witness:
  "find (\<lambda>entry. configurationId entry = ''cfg-a'') (configurations sampleConfig) = Some entryA
   \<and> (\<exists>entry \<in> set (configurations sampleConfig).
         configurationId entry \<noteq> ''cfg-a'' \<and> webhookId entry = webhookId entryA)
   \<and> deleteStripeWebhookCalls (snd (deleteConfigEntry mockCollaborators ''cfg-a'' sampleWorld))
       = []
   \<and> find (\<lambda>entry. configurationId entry = ''cfg-c'') (configurations sampleConfig) = Some entryC
   \<and> \<not> (\<exists>entry \<in> set (configurations sampleConfig).
           configurationId entry \<noteq> ''cfg-c'' \<and> webhookId entry = webhookId entryC)
   \<and> deleteStripeWebhookCalls (snd (deleteConfigEntry mockCollaborators ''cfg-c'' sampleWorld))
       = [(Some ''we_2'', Some ''sk_test_2'')]"
proof -
  have l: "deleteStripeWebhookCalls sampleWorld = []" by (simp add: sampleWorld_def)
  have c: "webhookId entryC = Some ''we_2''" "secretKey entryC = Some ''sk_test_2''"
    by (simp_all add: entryC_def)
  from deleteConfigEntry_webhook_retired_iff_unshared [OF sample_getConfig sample_find(1)]
       sample_webhooks(1) l
  have a: "deleteStripeWebhookCalls
             (snd (deleteConfigEntry mockCollaborators ''cfg-a'' sampleWorld)) = []"
    by simp
  from deleteConfigEntry_webhook_retired_iff_unshared [OF sample_getConfig sample_find(2)]
       sample_webhooks(2) l c
  have b: "deleteStripeWebhookCalls
             (snd (deleteConfigEntry mockCollaborators ''cfg-c'' sampleWorld))
           = [(Some ''we_2'', Some ''sk_test_2'')]"
    by simp
  from a b sample_find sample_webhooks show ?thesis by blast
qed

text \<open>
  Claim C6. On the delete of an existing entry whose webhook no other entry shares, when
  the processor-side webhook deletion fails, \<^verbatim>\<open>deleteConfigEntry\<close> still succeeds: the
  deletion was attempted, its error is not raised, and the persisted list of entries no
  longer has an entry with the id.
\<close>

theorem deleteConfigEntry_swallows_webhook_failure:
  assumes "AppConfigurator_getConfig env w = Inr config"
    and "find (\<lambda>entry. configurationId entry = cid) (configurations config)
           = Some existingEntry"
    and "\<forall>entry \<in> set (configurations config).
           configurationId entry \<noteq> cid \<longrightarrow> webhookId entry \<noteq> webhookId existingEntry"
    and "fst (deleteStripeWebhook env (webhookId existingEntry) (secretKey existingEntry) w)
           = Inl err"
  shows "fst (deleteConfigEntry env cid w) = Inr ()
     \<and> deleteStripeWebhookCalls (snd (deleteConfigEntry env cid w))
         = deleteStripeWebhookCalls w @ [(webhookId existingEntry, secretKey existingEntry)]
     \<and> configurationsField (privateMetadata (snd (deleteConfigEntry env cid w)))
         = Some (filter (\<lambda>entry. configurationId entry \<noteq> cid) (configurations config))
     \<and> find (\<lambda>entry. configurationId entry = cid)
         (filter (\<lambda>entry. configurationId entry \<noteq> cid) (configurations config)) = None"
proof -
  let ?w1 = "if \<exists>entry \<in> set (configurations config).
               configurationId entry \<noteq> cid \<and> webhookId entry = webhookId existingEntry
          then w
          else w\<lparr>deleteStripeWebhookCalls := deleteStripeWebhookCalls w @
                   [(webhookId existingEntry, secretKey existingEntry)]\<rparr>"
  have pm: "privateMetadata ?w1 = privateMetadata w" by simp
  have cfg1: "AppConfigurator_getConfig env ?w1 = Inr config"
    using getConfig_frame [OF pm] assms(1) by simp
  have gone: "find (\<lambda>entry. configurationId entry = cid)
         (filter (\<lambda>entry. configurationId entry \<noteq> cid) (configurations config)) = None"
    by (simp add: find_None_iff)
  show ?thesis
    unfolding manager_delete_run [OF assms(1,2)] configurator_delete_run [OF cfg1]
    using assms(3) gone by auto
qed

theorem deleteConfigEntry_swallows_webhook_failure_witness:
  "fst (deleteStripeWebhook mockCollaborators (webhookId entryC) (secretKey entryC) sampleWorld)
     = Inl (UpstreamError ''webhook endpoint was not deleted'')
   \<and> fst (deleteConfigEntry mockCollaborators ''cfg-c'' sampleWorld) = Inr ()
   \<and> deleteStripeWebhookCalls (snd (deleteConfigEntry mockCollaborators ''cfg-c'' sampleWorld))
       = [(Some ''we_2'', Some ''sk_test_2'')]
   \<and> configurationsField
       (privateMetadata (snd (deleteConfigEntry mockCollaborators ''cfg-c'' sampleWorld)))
       = Some [entryA, entryB]"
proof -
  have f: "fst (deleteStripeWebhook mockCollaborators (webhookId entryC) (secretKey entryC)
                  sampleWorld)
     = Inl (UpstreamError ''webhook endpoint was not deleted'')"
    by (simp add: deleteStripeWebhook_def mockCollaborators_def)
  have l: "deleteStripeWebhookCalls sampleWorld = []" by (simp add: sampleWorld_def)
  have c: "webhookId entryC = Some ''we_2''" "secretKey entryC = Some ''sk_test_2''"
    by (simp_all add: entryC_def)
  from deleteConfigEntry_swallows_webhook_failure
         [OF sample_getConfig sample_find(2) sample_webhooks(2) f] f l c
  show ?thesis by (simp add: sample_filter)
qed

end
